theory Spec2Isabelle
  imports Main "HOL-Library.Sublist" "HOL-Library.FSet"
begin

section \<open>Python strings\<close>

text \<open>
  A Python \<open>str\<close> is modelled as a \<open>string\<close>; a character is read as the code point
  with its number (Latin-1), so \<open>length\<close> is Python's \<open>len\<close> on such text.
  \<open>isspace\<close> and \<open>lower_char\<close> are Python's \<open>str.isspace\<close> and \<open>str.lower\<close>
  on these code points.
\<close>

definition isspace :: "char \<Rightarrow> bool" where
  "isspace c =
     (let n = (of_char c :: nat)
      in (9 \<le> n \<and> n \<le> 13) \<or> (28 \<le> n \<and> n \<le> 32) \<or> n = 133 \<or> n = 160)"

definition strip :: "string \<Rightarrow> string" where
  "strip s = rev (dropWhile isspace (rev (dropWhile isspace s)))"

definition lower_char :: "char \<Rightarrow> char" where
  "lower_char c =
     (let n = (of_char c :: nat)
      in if (65 \<le> n \<and> n \<le> 90) \<or> (192 \<le> n \<and> n \<le> 222 \<and> n \<noteq> 215)
         then char_of (n + 32) else c)"

definition lower :: "string \<Rightarrow> string" where
  "lower s = map lower_char s"

text \<open>\<open>s.startswith(p)\<close>, \<open>s.endswith(p)\<close> and \<open>p in s\<close>.\<close>

fun startswith :: "'a list \<Rightarrow> 'a list \<Rightarrow> bool" where
  "startswith s [] = True"
| "startswith [] (p # ps) = False"
| "startswith (c # cs) (p # ps) = (c = p \<and> startswith cs ps)"

definition endswith :: "'a list \<Rightarrow> 'a list \<Rightarrow> bool" where
  "endswith s p = startswith (rev s) (rev p)"

fun contains :: "'a list \<Rightarrow> 'a list \<Rightarrow> bool" where
  "contains [] p = startswith [] p"
| "contains (c # cs) p = (startswith (c # cs) p \<or> contains cs p)"

text \<open>The decimal text of an integer, as \<open>f"{job_id}"\<close> writes it.\<close>

definition digit_char :: "nat \<Rightarrow> char" where
  "digit_char d = ''0123456789'' ! d"

fun str_nat :: "nat \<Rightarrow> string" where
  "str_nat n = (if n < 10 then [digit_char n] else str_nat (n div 10) @ [digit_char (n mod 10)])"

declare str_nat.simps [simp del]

definition str_int :: "int \<Rightarrow> string" where
  "str_int i = (if i < 0 then CHR ''-'' # str_nat (nat (- i)) else str_nat (nat i))"

section \<open>The parsed page\<close>

text \<open>
  BeautifulSoup is an external library; a parsed page is modelled by the answers it gives to
  the queries of the scraper. An element carries its text fragments in document order and its
  attributes. \<open>get_text(strip=True)\<close> strips every fragment, drops the empty ones and
  joins the rest without a separator.
\<close>

record element =
  el_strings :: "string list"
  el_attrs :: "(string \<times> string) list"

definition get_text_strip :: "element \<Rightarrow> string" where
  "get_text_strip el = concat (filter (\<lambda>t. t \<noteq> []) (map strip (el_strings el)))"

definition el_get :: "element \<Rightarrow> string \<Rightarrow> string option" where
  "el_get el k = map_of (el_attrs el) k"

record soup =
  select_one :: "string \<Rightarrow> element option"
  text_nodes :: "string list"
  added_by_parent :: "(string \<Rightarrow> element option) option"

section \<open>Page Classifier\<close>

text \<open>\<open>is_redirected_to_home\<close>, with \<open>self.driver.current_url\<close> and \<open>self.base_url\<close>
  as arguments.\<close>

definition is_redirected_to_home :: "string \<Rightarrow> string \<Rightarrow> bool" where
  "is_redirected_to_home base_url current_url =
     (endswith current_url ''/feed'' \<or>
      endswith current_url ''/'' \<or>
      endswith current_url ''/jobs'' \<or>
      \<not> contains current_url ''/jobs/'' \<or>
      current_url = base_url \<or>
      current_url = base_url @ ''/'' \<or>
      current_url = base_url @ ''/feed'')"

section \<open>Field Extractor\<close>

text \<open>
  \<open>_extract_text_by_selectors\<close>. The default is a string or Python's \<open>None\<close>
  (the calls for the optional fields pass \<open>None\<close>), so the default and the result are
  \<open>string option\<close>.
\<close>

fun extract_text_by_selectors :: "soup \<Rightarrow> string list \<Rightarrow> string option \<Rightarrow> string option" where
  "extract_text_by_selectors sp [] dflt = dflt"
| "extract_text_by_selectors sp (selector # selectors) dflt =
     (case select_one sp selector of
        None \<Rightarrow> extract_text_by_selectors sp selectors dflt
      | Some el \<Rightarrow>
          if get_text_strip el \<noteq> [] then Some (get_text_strip el)
          else extract_text_by_selectors sp selectors dflt)"

text \<open>
  \<open>_extract_image_url\<close>. \<open>urljoin\<close> is the standard library's; it is a parameter.
\<close>

fun extract_image_url ::
  "(string \<Rightarrow> string \<Rightarrow> string) \<Rightarrow> string \<Rightarrow> soup \<Rightarrow> string list \<Rightarrow> string option" where
  "extract_image_url urljoin base_url sp [] = None"
| "extract_image_url urljoin base_url sp (selector # selectors) =
     (case select_one sp selector of
        None \<Rightarrow> extract_image_url urljoin base_url sp selectors
      | Some img \<Rightarrow>
          (case el_get img ''src'' of
             None \<Rightarrow> extract_image_url urljoin base_url sp selectors
           | Some src \<Rightarrow>
               if src = [] then extract_image_url urljoin base_url sp selectors
               else if startswith src ''http'' then Some src
               else Some (urljoin base_url src)))"

section \<open>The job record and the Record Validator\<close>

record JobPosting =
  job_id :: int
  title :: string
  company :: string
  location :: string
  description :: string
  requirements :: string
  posted_date :: string
  url :: string
  image_url :: "string option"
  company_logo_url :: "string option"
  employment_type :: "string option"
  industry :: "string option"
  job_function :: "string option"
  closing_date :: "string option"
  added_by_name :: "string option"
  added_by_company :: "string option"
  scraped_at :: string

text \<open>\<open>__post_init__\<close>, with \<open>datetime.now().isoformat()\<close> as the argument \<open>now\<close>.\<close>

definition post_init :: "string \<Rightarrow> JobPosting \<Rightarrow> JobPosting" where
  "post_init now job = (if scraped_at job = [] then job\<lparr>scraped_at := now\<rparr> else job)"

text \<open>
  \<open>_is_empty_job\<close>: the list of three booleans, and Python's \<open>sum\<close> of it
  (\<open>True\<close> counts 1).
\<close>

definition empty_indicators :: "JobPosting \<Rightarrow> bool list" where
  "empty_indicators job =
     [ title job = [] \<or> strip (title job) = [] \<or>
         lower (title job) \<in> set [''unknown'', ''no title'', ''unknown title''],
       company job = [] \<or> strip (company job) = [] \<or>
         lower (company job) \<in> set [''unknown'', ''unknown company'', ''no company''],
       description job = [] \<or> strip (description job) = [] \<or>
         lower (description job) \<in>
           set [''no description available'', ''no description'', ''unknown description''] \<or>
         length (strip (description job)) < 20 ]"

definition is_empty_job :: "JobPosting \<Rightarrow> bool" where
  "is_empty_job job = ((2::int) \<le> sum_list (map of_bool (empty_indicators job)))"

section \<open>The world outside the scraper\<close>

text \<open>
  The collaborators of a run: whether \<open>login\<close> succeeds; what the browser does on
  \<open>driver.get(url)\<close> (\<open>None\<close>: it raises; otherwise the URL it ends on and the parsed
  page source); \<open>urljoin\<close>; the clock; and whether writing the state file, writing the
  results and generating the feeds succeed or raise.
\<close>

record world =
  login_ok :: bool
  driver_get :: "string \<Rightarrow> (string \<times> soup) option"
  urljoin :: "string \<Rightarrow> string \<Rightarrow> string"
  now :: string
  state_write_ok :: bool
  save_results_ok :: bool
  generate_feeds_ok :: bool

section \<open>Files\<close>

text \<open>
  The state file: absent; present but unreadable or not a JSON object; or an object with
  the integers found under \<open>last_job_id\<close> and \<open>total_runs\<close> (\<open>None\<close>: no such key).
  A jobs file: absent, unreadable, or the list of its entries, each with the \<open>job_id\<close> it
  has, if any.
\<close>

datatype state_json = NoFile | BadFile | StateFile (sf_last_job_id: "int option") (sf_total_runs: "int option")

datatype jobs_json = NoJobsFile | BadJobsFile | JobsFile "int option list"

record disk =
  state_file :: state_json
  data_jobs_raw :: jobs_json
  jobs_raw :: jobs_json

section \<open>The scraper\<close>

text \<open>
  The fields of \<open>EspritJobScraper\<close> the walk uses, the files it reads and writes, and the
  URLs it has asked the browser for, in order.
\<close>

record scraper =
  initial_job_id :: int
  current_job_id :: int
  base_url :: string
  jobs_scraped :: "JobPosting list"
  existing_job_ids :: "int fset"
  files :: disk
  visited :: "string list"

subsection \<open>Cursor Store\<close>

definition load_last_job_id :: "int \<Rightarrow> disk \<Rightarrow> int" where
  "load_last_job_id initial d =
     (case state_file d of
        NoFile \<Rightarrow> initial
      | BadFile \<Rightarrow> initial
      | StateFile last_id runs \<Rightarrow> (case last_id of None \<Rightarrow> initial | Some i \<Rightarrow> i))"

text \<open>
  \<open>save_last_job_id\<close>: \<open>total_runs\<close> is 1, or one more than the stored count when the
  file exists and parses (a missing key counts 0). A failed write is caught and logged,
  and leaves the file as it was.
\<close>

definition save_last_job_id :: "world \<Rightarrow> int \<Rightarrow> scraper \<Rightarrow> scraper" where
  "save_last_job_id w jid s =
     (let runs = (case state_file (files s) of
                    NoFile \<Rightarrow> 1
                  | BadFile \<Rightarrow> 1
                  | StateFile last_id r \<Rightarrow> (case r of None \<Rightarrow> 0 | Some t \<Rightarrow> t) + 1)
      in if state_write_ok w
         then s\<lparr>files := (files s)\<lparr>state_file := StateFile (Some jid) (Some runs)\<rparr>\<rparr>
         else s)"

subsection \<open>Duplicate Index\<close>

text \<open>
  \<open>load_existing_job_ids\<close>: the first of the two files that loads and is not empty gives
  the set; a file that is absent, unreadable or empty passes on to the next.
\<close>

fun ids_of_file :: "jobs_json \<Rightarrow> int fset option" where
  "ids_of_file NoJobsFile = None"
| "ids_of_file BadJobsFile = None"
| "ids_of_file (JobsFile jobs) =
     (if jobs = [] then None else Some (fset_of_list (List.map_filter (\<lambda>j. j) jobs)))"

definition load_existing_job_ids :: "disk \<Rightarrow> int fset" where
  "load_existing_job_ids d =
     (case ids_of_file (data_jobs_raw d) of
        Some ids \<Rightarrow> ids
      | None \<Rightarrow> (case ids_of_file (jobs_raw d) of Some ids \<Rightarrow> ids | None \<Rightarrow> {||}))"

subsection \<open>Construction\<close>

text \<open>\<open>__init__\<close>, on the files found at start.\<close>

definition scraper_init :: "disk \<Rightarrow> scraper" where
  "scraper_init d =
     (let initial = 795;
          current = load_last_job_id initial d
      in \<lparr> initial_job_id = initial,
           current_job_id = (if current > initial then current - 1 else current),
           base_url = ''https://espritconnect.com'',
           jobs_scraped = [],
           existing_job_ids = load_existing_job_ids d,
           files = d,
           visited = [] \<rparr>)"

section \<open>Extraction of one job\<close>

definition job_url_of :: "string \<Rightarrow> int \<Rightarrow> string" where
  "job_url_of base jid = base @ ''/jobs/'' @ str_int jid"

text \<open>The closing date: the first text node that holds the label, stripped.\<close>

definition find_closing_date :: "soup \<Rightarrow> string option" where
  "find_closing_date sp =
     (case find (\<lambda>t. t \<noteq> [] \<and> contains t ''Closing date for applications:'') (text_nodes sp) of
        None \<Rightarrow> None
      | Some closing_text \<Rightarrow> if closing_text \<noteq> [] then Some (strip closing_text) else None)"

text \<open>The "Added by" pair, read in the parent of the section heading.\<close>

definition find_added_by :: "soup \<Rightarrow> string option \<times> string option" where
  "find_added_by sp =
     (case added_by_parent sp of
        None \<Rightarrow> (None, None)
      | Some parent_select_one \<Rightarrow>
          (map_option get_text_strip (parent_select_one ''.gw-name''),
           map_option get_text_strip (parent_select_one ''.gw-descr'')))"

text \<open>Python's \<open>a or b\<close> on an optional string: \<open>None\<close> and the empty string are false.\<close>

definition truthy :: "string option \<Rightarrow> bool" where
  "truthy v = (case v of None \<Rightarrow> False | Some t \<Rightarrow> t \<noteq> [])"

text \<open>
  The body of \<open>extract_job_data\<close> from the parsed page to the constructed
  \<open>JobPosting\<close>. \<open>x.strip()\<close> raises on \<open>None\<close>; the result \<open>None\<close> is that exception,
  which the \<open>except\<close> of \<open>extract_job_data\<close> catches.
\<close>

definition title_selectors :: "string list" where
  "title_selectors =
     [''#jobPageJobTitle'', ''h2#jobPageJobTitle'', ''h1.job-title'', ''.job-header h1'',
      ''.job-details h1'', ''h1'', ''h2'', ''.title'']"

definition company_selectors :: "string list" where
  "company_selectors =
     [''#jobPageOrganization_0'', ''p#jobPageOrganization_0'', ''.company-name'',
      ''.job-company'', ''.employer'', ''.company'']"

definition location_selectors :: "string list" where
  "location_selectors =
     [''#jobPageJobFunction_0'', ''p#jobPageJobFunction_0'', ''.job-location'',
      ''.location'', ''.job-address'']"

definition description_selectors :: "string list" where
  "description_selectors =
     [''#jobPageDescription'', ''div#jobPageDescription'', ''.job-description'',
      ''.description'', ''.job-content'', ''.content'']"

definition requirements_selectors :: "string list" where
  "requirements_selectors =
     [''.job-requirements'', ''.requirements'', ''.job-qualifications'', ''.qualifications'']"

definition date_selectors :: "string list" where
  "date_selectors = [''.posted-date'', ''.job-date'', ''.publication-date'']"

definition image_selectors :: "string list" where
  "image_selectors = [''.job-image img'', ''.company-logo img'', ''.job-header img'']"

definition company_logo_selectors :: "string list" where
  "company_logo_selectors = [''.gw-company-logo img'', ''.company-logo-position'']"

definition employment_type_selectors :: "string list" where
  "employment_type_selectors = [''#jobPageOrganization_2'', ''p#jobPageOrganization_2'']"

definition industry_selectors :: "string list" where
  "industry_selectors = [''#jobPageJobFunction_2'', ''p#jobPageJobFunction_2'']"

definition actual_location_selectors :: "string list" where
  "actual_location_selectors = [''.location-address'', ''.location-icon-text'']"

definition construct_job :: "world \<Rightarrow> string \<Rightarrow> soup \<Rightarrow> int \<Rightarrow> JobPosting option" where
  "construct_job w base sp jid =
     (let job_url = job_url_of base jid;
          title_v = extract_text_by_selectors sp title_selectors (Some ''Unknown Title'');
          company_v = extract_text_by_selectors sp company_selectors (Some ''Unknown Company'');
          location_v = extract_text_by_selectors sp location_selectors (Some ''Unknown Location'');
          description_v =
            extract_text_by_selectors sp description_selectors (Some ''No description available'');
          requirements_v =
            extract_text_by_selectors sp requirements_selectors (Some ''No requirements specified'');
          posted_date_v = extract_text_by_selectors sp date_selectors (Some ''Unknown Date'');
          image = extract_image_url (urljoin w) base sp image_selectors;
          company_logo = extract_image_url (urljoin w) base sp company_logo_selectors;
          employment = extract_text_by_selectors sp employment_type_selectors None;
          industry_v = extract_text_by_selectors sp industry_selectors None;
          actual_location = extract_text_by_selectors sp actual_location_selectors None;
          closing = find_closing_date sp;
          added_by = find_added_by sp
      in case title_v of None \<Rightarrow> None | Some t \<Rightarrow>
         case company_v of None \<Rightarrow> None | Some c \<Rightarrow>
         case location_v of None \<Rightarrow> None | Some l \<Rightarrow>
         case description_v of None \<Rightarrow> None | Some d \<Rightarrow>
         case requirements_v of None \<Rightarrow> None | Some r \<Rightarrow>
         case posted_date_v of None \<Rightarrow> None | Some p \<Rightarrow>
           Some (post_init (now w)
             \<lparr> job_id = jid,
               title = strip t,
               company = strip c,
               location = (case actual_location of
                             None \<Rightarrow> strip l
                           | Some a \<Rightarrow> if a \<noteq> [] then a else strip l),
               description = take 1000 (strip d),
               requirements = take 500 (strip r),
               posted_date = strip p,
               url = job_url,
               image_url = image,
               company_logo_url = company_logo,
               employment_type = employment,
               industry = industry_v,
               job_function = (if truthy actual_location then Some l else None),
               closing_date = closing,
               added_by_name = fst added_by,
               added_by_company = snd added_by,
               scraped_at = [] \<rparr>))"

text \<open>
  What \<open>extract_job_data\<close> returns: \<open>None\<close>, the string \<open>"EMPTY_JOB_STOP"\<close>, or the job.
\<close>

datatype extract_result = NoJob | EMPTY_JOB_STOP | Job JobPosting

definition extract_job_data :: "world \<Rightarrow> int \<Rightarrow> scraper \<Rightarrow> extract_result \<times> scraper" where
  "extract_job_data w jid s =
     (let job_url = job_url_of (base_url s) jid;
          s1 = s\<lparr>visited := visited s @ [job_url]\<rparr>
      in case driver_get w job_url of
           None \<Rightarrow> (NoJob, s1)
         | Some (current_url, sp) \<Rightarrow>
             if is_redirected_to_home (base_url s) current_url then (NoJob, s1)
             else (case construct_job w (base_url s) sp jid of
                     None \<Rightarrow> (NoJob, s1)
                   | Some job \<Rightarrow>
                       if is_empty_job job
                       then (EMPTY_JOB_STOP, save_last_job_id w jid s1)
                       else (Job job, s1)))"

section \<open>Job Walker\<close>

datatype error = SaveResultsError | GenerateFeedsError

text \<open>
  \<open>save_results\<close> writes \<open>data/jobs_raw.json\<close> (and the summary and the feeds, which
  the walk never reads). When a write raises, the exception leaves \<open>scrape_jobs\<close>.
\<close>

definition save_results :: "world \<Rightarrow> scraper \<Rightarrow> error + scraper" where
  "save_results w s =
     (if save_results_ok w
      then Inr (s\<lparr>files := (files s)\<lparr>data_jobs_raw := JobsFile (map (\<lambda>j. Some (job_id j)) (jobs_scraped s))\<rparr>\<rparr>)
      else Inl SaveResultsError)"

text \<open>
  The two \<open>break\<close> branches of the loop do the same before they leave it: when records
  were collected, save them and generate the feeds.
\<close>

definition save_progress :: "world \<Rightarrow> scraper \<Rightarrow> (error + unit) \<times> scraper" where
  "save_progress w s =
     (if jobs_scraped s \<noteq> []
      then (case save_results w s of
              Inl e \<Rightarrow> (Inl e, s)
            | Inr s' \<Rightarrow> if generate_feeds_ok w then (Inr (), s') else (Inl GenerateFeedsError, s'))
      else (Inr (), s))"

text \<open>
  The \<open>else\<close> branch of the loop, on the local counter and the scraper: a job whose ID
  is known is skipped, any other is appended, its ID recorded and the counter incremented.
\<close>

definition accept_job :: "JobPosting \<Rightarrow> int \<times> scraper \<Rightarrow> int \<times> scraper" where
  "accept_job job cs =
     (case cs of (n, s) \<Rightarrow>
        if job_id job |\<in>| existing_job_ids s then (n, s)
        else (n + 1, s\<lparr>jobs_scraped := jobs_scraped s @ [job],
                       existing_job_ids := finsert (job_id job) (existing_job_ids s)\<rparr>))"

text \<open>\<open>self.current_job_id += 1\<close>, the last statement of an iteration.\<close>

definition advance :: "scraper \<Rightarrow> scraper" where
  "advance s = s\<lparr>current_job_id := current_job_id s + 1\<rparr>"

lemma extract_job_data_keeps:
  "extract_job_data w jid s = (r, s1) \<Longrightarrow>
     existing_job_ids s1 = existing_job_ids s \<and> current_job_id s1 = current_job_id s"
  unfolding extract_job_data_def Let_def
  by (auto simp: save_last_job_id_def Let_def split: option.splits if_splits prod.splits)

lemma construct_job_id: "construct_job w b sp jid = Some job \<Longrightarrow> job_id job = jid"
  by (auto simp: construct_job_def post_init_def Let_def split: option.splits if_splits)

lemma extract_job_data_id:
  "extract_job_data w jid s = (Job job, s1) \<Longrightarrow> job_id job = jid"
  unfolding extract_job_data_def Let_def
  by (auto simp: construct_job_id split: option.splits if_splits prod.splits)

lemma walk_measure_decreases:
  assumes "n < max_jobs"
  shows "nat (max_jobs - fst (accept_job job (n, s)))
           + fcard (ffilter (\<lambda>i. current_job_id (advance (snd (accept_job job (n, s)))) \<le> i)
                            (existing_job_ids (advance (snd (accept_job job (n, s))))))
         < nat (max_jobs - n)
           + fcard (ffilter (\<lambda>i. job_id job \<le> i) (existing_job_ids s))
         \<or> current_job_id s \<noteq> job_id job"
proof (cases "current_job_id s = job_id job")
  case False
  then show ?thesis by simp
next
  case cur: True
  let ?E = "existing_job_ids s"
  let ?c = "job_id job"
  show ?thesis
  proof (cases "?c |\<in>| ?E")
    case True
    have sub: "ffilter (\<lambda>i. ?c + 1 \<le> i) ?E |\<subseteq>| ffilter (\<lambda>i. ?c \<le> i) ?E"
      by auto
    have "?c |\<in>| ffilter (\<lambda>i. ?c \<le> i) ?E" "?c |\<notin>| ffilter (\<lambda>i. ?c + 1 \<le> i) ?E"
      using True by auto
    then have "ffilter (\<lambda>i. ?c + 1 \<le> i) ?E \<noteq> ffilter (\<lambda>i. ?c \<le> i) ?E"
      by metis
    with sub have "ffilter (\<lambda>i. ?c + 1 \<le> i) ?E |\<subset>| ffilter (\<lambda>i. ?c \<le> i) ?E"
      by (simp add: pfsubset_eq)
    then have "fcard (ffilter (\<lambda>i. ?c + 1 \<le> i) ?E) < fcard (ffilter (\<lambda>i. ?c \<le> i) ?E)"
      by (rule pfsubset_fcard_mono)
    then show ?thesis
      using True cur by (simp add: accept_job_def advance_def)
  next
    case False
    have eq: "ffilter (\<lambda>i. ?c + 1 \<le> i) (finsert ?c ?E) = ffilter (\<lambda>i. ?c + 1 \<le> i) ?E"
      by auto
    have "ffilter (\<lambda>i. ?c + 1 \<le> i) ?E |\<subseteq>| ffilter (\<lambda>i. ?c \<le> i) ?E"
      by auto
    then have "fcard (ffilter (\<lambda>i. ?c + 1 \<le> i) ?E) \<le> fcard (ffilter (\<lambda>i. ?c \<le> i) ?E)"
      by (rule fcard_mono)
    then show ?thesis
      using False cur assms by (simp add: accept_job_def advance_def eq)
  qed
qed

text \<open>
  The \<open>while\<close> loop of \<open>scrape_jobs\<close>, with the local counter \<open>jobs_scraped\<close> as \<open>n\<close>.
  It ends: either the counter grows towards \<open>max_jobs\<close>, or the current ID passes one
  more of the finitely many known IDs.
\<close>

function scrape_loop :: "world \<Rightarrow> int \<Rightarrow> int \<Rightarrow> scraper \<Rightarrow> (error + unit) \<times> scraper" where
  "scrape_loop w max_jobs n s =
     (if n < max_jobs
      then (case extract_job_data w (current_job_id s) s of
              (NoJob, s1) \<Rightarrow> save_progress w s1
            | (EMPTY_JOB_STOP, s1) \<Rightarrow> save_progress w s1
            | (Job job, s1) \<Rightarrow>
                scrape_loop w max_jobs (fst (accept_job job (n, s1)))
                                       (advance (snd (accept_job job (n, s1)))))
      else (Inr (), s))"
  by pat_completeness auto
termination
proof (relation "measure (\<lambda>(w, max_jobs, n, s).
          nat (max_jobs - n)
          + fcard (ffilter (\<lambda>i. current_job_id s \<le> i) (existing_job_ids s)))", goal_cases)
  case 1
  show ?case by simp
next
  case (2 w max_jobs n s r s1 job)
  from 2(2,3) have ex: "extract_job_data w (current_job_id s) s = (Job job, s1)"
    by simp
  have id: "job_id job = current_job_id s"
    using ex by (rule extract_job_data_id)
  have keep: "existing_job_ids s1 = existing_job_ids s \<and> current_job_id s1 = current_job_id s"
    using ex by (rule extract_job_data_keeps)
  show ?case
    using walk_measure_decreases [OF 2(1), of job s1] id keep by simp
qed

declare scrape_loop.simps [simp del]

text \<open>\<open>scrape_jobs\<close>: the result is the list returned, or the exception that left it.\<close>

definition scrape_jobs :: "world \<Rightarrow> int \<Rightarrow> scraper \<Rightarrow> (error + JobPosting list) \<times> scraper" where
  "scrape_jobs w max_jobs s =
     (if \<not> login_ok w then (Inr [], s)
      else
        let start_id = current_job_id s
        in case scrape_loop w max_jobs 0 s of
             (Inl e, s1) \<Rightarrow> (Inl e, s1)
           | (Inr u, s1) \<Rightarrow>
               let s2 = (if current_job_id s1 > start_id
                         then save_last_job_id w (current_job_id s1 - 1) s1 else s1)
               in (Inr (jobs_scraped s2), s2))"

section \<open>Notions of the specification and example inputs\<close>

text \<open>
  The three indicators as the specification words them: a text is blank when it is empty or
  all whitespace; the placeholders are compared without regard to case.
\<close>

definition blank :: "string \<Rightarrow> bool" where
  "blank t = (\<forall>c \<in> set t. isspace c)"

definition spec_title_indicator :: "JobPosting \<Rightarrow> bool" where
  "spec_title_indicator job =
     (blank (title job) \<or> lower (title job) \<in> {''unknown'', ''no title'', ''unknown title''})"

definition spec_company_indicator :: "JobPosting \<Rightarrow> bool" where
  "spec_company_indicator job =
     (blank (company job) \<or>
      lower (company job) \<in> {''unknown'', ''unknown company'', ''no company''})"

definition spec_description_indicator :: "JobPosting \<Rightarrow> bool" where
  "spec_description_indicator job =
     (blank (description job) \<or>
      lower (description job) \<in>
        {''no description available'', ''no description'', ''unknown description''} \<or>
      length (strip (description job)) < 20)"

definition at_least_two :: "bool \<Rightarrow> bool \<Rightarrow> bool \<Rightarrow> bool" where
  "at_least_two a b c = ((a \<and> b) \<or> (a \<and> c) \<or> (b \<and> c))"

text \<open>A record that holds only the defaults of the extraction.\<close>

definition placeholder_job :: JobPosting where
  "placeholder_job =
     \<lparr> job_id = 800, title = ''Unknown Title'', company = ''Unknown Company'',
       location = ''Unknown Location'', description = ''No description available'',
       requirements = ''No requirements specified'', posted_date = ''Unknown Date'',
       url = ''https://espritconnect.com/jobs/800'', image_url = None,
       company_logo_url = None, employment_type = None, industry = None,
       job_function = None, closing_date = None, added_by_name = None,
       added_by_company = None, scraped_at = ''2025-01-01T00:00:00'' \<rparr>"

text \<open>
  A locator hits when it matches an element whose trimmed text is not empty; its text is
  then that trimmed text.
\<close>

definition locator_hits :: "soup \<Rightarrow> string \<Rightarrow> bool" where
  "locator_hits sp sel = (case select_one sp sel of None \<Rightarrow> False | Some el \<Rightarrow> get_text_strip el \<noteq> [])"

definition locator_text :: "soup \<Rightarrow> string \<Rightarrow> string" where
  "locator_text sp sel = (case select_one sp sel of None \<Rightarrow> [] | Some el \<Rightarrow> get_text_strip el)"

text \<open>A page on which, of all locators, only \<open>.location\<close> matches.\<close>

definition page_only_location :: soup where
  "page_only_location =
     \<lparr> select_one = (\<lambda>sel. if sel = ''.location''
                            then Some \<lparr> el_strings = [''  Tunis '', '' '', ''(remote)''], el_attrs = [] \<rparr>
                            else None),
       text_nodes = [''  Tunis '', '' '', ''(remote)''],
       added_by_parent = None \<rparr>"

text \<open>
  Example inputs: a world in which login and every write succeed, on a given browser; a page
  given by the texts its selectors find.
\<close>

definition example_world :: "(string \<Rightarrow> (string \<times> soup) option) \<Rightarrow> world" where
  "example_world browse =
     \<lparr> login_ok = True, driver_get = browse, urljoin = (\<lambda>base rel. base @ rel),
       now = ''2025-01-01T00:00:00'', state_write_ok = True, save_results_ok = True,
       generate_feeds_ok = True \<rparr>"

definition page_of :: "(string \<times> string) list \<Rightarrow> soup" where
  "page_of found =
     \<lparr> select_one = (\<lambda>sel. map_option (\<lambda>t. \<lparr> el_strings = [t], el_attrs = [] \<rparr>) (map_of found sel)),
       text_nodes = map snd found,
       added_by_parent = None \<rparr>"

definition long_page :: soup where
  "long_page =
     page_of [(''#jobPageJobTitle'', ''Data Engineer''),
              (''#jobPageDescription'', replicate 1500 (CHR ''x'')),
              (''.requirements'', replicate 700 (CHR ''y''))]"

definition located_page :: soup where
  "located_page =
     page_of [(''#jobPageJobTitle'', ''Data Engineer''),
              (''#jobPageOrganization_0'', ''Esprit''),
              (''#jobPageJobFunction_0'', ''Engineering''),
              (''#jobPageDescription'', ''Build and run the data platform of the school.''),
              (''.location-icon-text'', ''Tunis'')]"

definition located_job :: JobPosting where
  "located_job =
     \<lparr> job_id = 795, title = ''Data Engineer'', company = ''Esprit'', location = ''Tunis'',
       description = ''Build and run the data platform of the school.'',
       requirements = ''No requirements specified'', posted_date = ''Unknown Date'',
       url = ''https://espritconnect.com/jobs/795'', image_url = None,
       company_logo_url = None, employment_type = None, industry = None,
       job_function = Some ''Engineering'', closing_date = None, added_by_name = None,
       added_by_company = None, scraped_at = ''2025-01-01T00:00:00'' \<rparr>"

definition no_files :: disk where
  "no_files = \<lparr> state_file = NoFile, data_jobs_raw = NoJobsFile, jobs_raw = NoJobsFile \<rparr>"

definition located_browser :: "string \<Rightarrow> (string \<times> soup) option" where
  "located_browser u =
     (if u = ''https://espritconnect.com/jobs/795''
      then Some (''https://espritconnect.com/jobs/795'', located_page) else None)"

text \<open>A state file left by an earlier run that stopped at 812.\<close>

definition files_at_812 :: disk where
  "files_at_812 =
     \<lparr> state_file = StateFile (Some 812) (Some 4), data_jobs_raw = NoJobsFile,
       jobs_raw = NoJobsFile \<rparr>"

text \<open>
  What the browser and the page hold for one ID, as \<open>extract_job_data\<close> sees it: a valid
  page that yields the record \<open>job\<close>; a page whose record is empty; a redirect that the
  Page Classifier reports; a fetch that raises.
\<close>

definition valid_page :: "world \<Rightarrow> string \<Rightarrow> int \<Rightarrow> JobPosting \<Rightarrow> bool" where
  "valid_page w base jid job =
     (case driver_get w (job_url_of base jid) of
        None \<Rightarrow> False
      | Some (final_url, sp) \<Rightarrow>
          \<not> is_redirected_to_home base final_url \<and>
          construct_job w base sp jid = Some job \<and> \<not> is_empty_job job)"

definition empty_page :: "world \<Rightarrow> string \<Rightarrow> int \<Rightarrow> bool" where
  "empty_page w base jid =
     (case driver_get w (job_url_of base jid) of
        None \<Rightarrow> False
      | Some (final_url, sp) \<Rightarrow>
          \<not> is_redirected_to_home base final_url \<and>
          (case construct_job w base sp jid of None \<Rightarrow> False | Some job \<Rightarrow> is_empty_job job))"

definition missing_page :: "world \<Rightarrow> string \<Rightarrow> int \<Rightarrow> bool" where
  "missing_page w base jid =
     (case driver_get w (job_url_of base jid) of
        None \<Rightarrow> False
      | Some (final_url, sp) \<Rightarrow> is_redirected_to_home base final_url)"

definition fetch_raises :: "world \<Rightarrow> string \<Rightarrow> int \<Rightarrow> bool" where
  "fetch_raises w base jid = (driver_get w (job_url_of base jid) = None)"

text \<open>
  Scenario A: valid pages at 795, 796 and 797, a redirect to \<open>/feed\<close> at 798.
\<close>

definition scenario_a_browser :: "string \<Rightarrow> (string \<times> soup) option" where
  "scenario_a_browser u =
     (if u \<in> set [''https://espritconnect.com/jobs/795'', ''https://espritconnect.com/jobs/796'',
                   ''https://espritconnect.com/jobs/797'']
      then Some (u, located_page)
      else if u = ''https://espritconnect.com/jobs/798''
      then Some (''https://espritconnect.com/feed'', page_of [])
      else None)"

text \<open>
  A valid page at 795 and, at 796, a page on which no selector finds anything, so that the
  record holds only the defaults.
\<close>

definition failsafe_browser :: "string \<Rightarrow> (string \<times> soup) option" where
  "failsafe_browser u =
     (if u = ''https://espritconnect.com/jobs/795'' then Some (u, located_page)
      else if u = ''https://espritconnect.com/jobs/796'' then Some (u, page_of [])
      else None)"

text \<open>The browser raises at 795; 796 holds a valid page.\<close>

definition raising_browser :: "string \<Rightarrow> (string \<times> soup) option" where
  "raising_browser u =
     (if u = ''https://espritconnect.com/jobs/796'' then Some (u, located_page) else None)"


definition output_recorded :: "scraper \<Rightarrow> bool" where
  "output_recorded s = (\<forall>r \<in> set (jobs_scraped s). job_id r |\<in>| existing_job_ids s)"




section \<open>Properties\<close>

subsection \<open>Page Classifier\<close>

lemma startswith_prefix: "startswith s p \<longleftrightarrow> prefix p s"
  by (induction s p rule: startswith.induct) auto

lemma endswith_suffix: "endswith s p \<longleftrightarrow> suffix p s"
  by (simp add: endswith_def startswith_prefix suffix_to_prefix)

lemma contains_sublist: "contains s p \<longleftrightarrow> sublist p s"
  by (induction s) (auto simp: startswith_prefix sublist_Cons_right)

text \<open>
  C7. The Page Classifier reports a page as missing exactly when the final URL equals the
  base URL, the base URL followed by \<open>/\<close> or by \<open>/feed\<close>, ends with \<open>/feed\<close>,
  \<open>/\<close> or \<open>/jobs\<close>, or does not contain \<open>/jobs/\<close>.
\<close>

theorem page_classifier_iff:
  "is_redirected_to_home base final_url \<longleftrightarrow>
     (final_url = base \<or> final_url = base @ ''/'' \<or>
      final_url = base @ ''/feed'' \<or> suffix ''/feed'' final_url \<or>
      suffix ''/'' final_url \<or> suffix ''/jobs'' final_url \<or>
      \<not> sublist ''/jobs/'' final_url)"
  unfolding is_redirected_to_home_def endswith_suffix contains_sublist by blast

theorem page_classifier_iff_witness:
  "is_redirected_to_home ''https://espritconnect.com'' ''https://espritconnect.com/jobs'' \<and>
   \<not> is_redirected_to_home ''https://espritconnect.com'' ''https://espritconnect.com/jobs/795''"
proof
  have "suffix ''/jobs'' ''https://espritconnect.com/jobs''"
    by (simp add: suffix_to_prefix)
  then show "is_redirected_to_home ''https://espritconnect.com'' ''https://espritconnect.com/jobs''"
    using page_classifier_iff [of "''https://espritconnect.com''" "''https://espritconnect.com/jobs''"]
    by blast
next
  have "sublist ''/jobs/'' ''https://espritconnect.com/jobs/795''"
    by (simp add: sublist_Cons_right)
  moreover have "\<not> suffix ''/feed'' ''https://espritconnect.com/jobs/795''"
       "\<not> suffix ''/'' ''https://espritconnect.com/jobs/795''"
       "\<not> suffix ''/jobs'' ''https://espritconnect.com/jobs/795''"
    by (simp_all add: suffix_to_prefix)
  ultimately show "\<not> is_redirected_to_home ''https://espritconnect.com'' ''https://espritconnect.com/jobs/795''"
    using page_classifier_iff [of "''https://espritconnect.com''" "''https://espritconnect.com/jobs/795''"]
    by simp
qed

subsection \<open>Record Validator\<close>

lemma strip_Nil_iff: "strip t = [] \<longleftrightarrow> blank t"
proof -
  have "strip t = [] \<longleftrightarrow> (\<forall>c \<in> set (dropWhile isspace t). isspace c)"
    by (simp add: strip_def)
  also have "\<dots> \<longleftrightarrow> dropWhile isspace t = []"
  proof
    assume a: "\<forall>c \<in> set (dropWhile isspace t). isspace c"
    show "dropWhile isspace t = []"
    proof (rule ccontr)
      assume ne: "dropWhile isspace t \<noteq> []"
      then have "\<not> isspace (hd (dropWhile isspace t))" by (rule hd_dropWhile)
      moreover have "hd (dropWhile isspace t) \<in> set (dropWhile isspace t)"
        using ne by simp
      ultimately show False using a by blast
    qed
  next
    assume "dropWhile isspace t = []"
    then show "\<forall>c \<in> set (dropWhile isspace t). isspace c"
      by (simp del: dropWhile_eq_Nil_conv)
  qed
  also have "\<dots> \<longleftrightarrow> blank t"
    by (simp add: blank_def)
  finally show ?thesis .
qed

lemma sum_indicators:
  "((2::int) \<le> sum_list (map of_bool [a, b, c])) = at_least_two a b c"
  by (cases a; cases b; cases c) (simp_all add: at_least_two_def)

lemma blank_Nil: "blank []"
  by (simp add: blank_def)

text \<open>
  C3. \<open>isEmpty\<close> is true exactly when at least two of the three indicators hold:
  the title is blank or a known placeholder; the company is blank or a known placeholder;
  the description is blank, a known placeholder, or shorter than 20 characters after
  trimming.
\<close>

theorem is_empty_job_iff:
  "is_empty_job job \<longleftrightarrow>
     at_least_two (spec_title_indicator job) (spec_company_indicator job)
       (spec_description_indicator job)"
proof -
  have t: "(title job = [] \<or> strip (title job) = [] \<or>
            lower (title job) \<in> set [''unknown'', ''no title'', ''unknown title''])
           = spec_title_indicator job"
    unfolding spec_title_indicator_def strip_Nil_iff using blank_Nil by auto
  have c: "(company job = [] \<or> strip (company job) = [] \<or>
            lower (company job) \<in> set [''unknown'', ''unknown company'', ''no company''])
           = spec_company_indicator job"
    unfolding spec_company_indicator_def strip_Nil_iff using blank_Nil by auto
  have d: "(description job = [] \<or> strip (description job) = [] \<or>
            lower (description job) \<in>
              set [''no description available'', ''no description'', ''unknown description''] \<or>
            length (strip (description job)) < 20)
           = spec_description_indicator job"
    unfolding spec_description_indicator_def strip_Nil_iff using blank_Nil by auto
  show ?thesis
    unfolding is_empty_job_def empty_indicators_def t c d by (rule sum_indicators)
qed

theorem is_empty_job_iff_witness:
  "is_empty_job placeholder_job \<and>
   \<not> is_empty_job (placeholder_job\<lparr>title := ''Data Engineer'', company := ''Esprit''\<rparr>)"
proof
  have "spec_title_indicator placeholder_job" "spec_company_indicator placeholder_job"
    by (simp_all add: spec_title_indicator_def spec_company_indicator_def placeholder_job_def
          lower_def lower_char_def char_of_eq_iff)
  then show "is_empty_job placeholder_job"
    using is_empty_job_iff [of placeholder_job] by (simp add: at_least_two_def)
next
  let ?j = "placeholder_job\<lparr>title := ''Data Engineer'', company := ''Esprit''\<rparr>"
  have "\<not> spec_title_indicator ?j" "\<not> spec_company_indicator ?j"
    by (simp_all add: spec_title_indicator_def spec_company_indicator_def placeholder_job_def
          lower_def lower_char_def char_of_eq_iff blank_def isspace_def)
  then show "\<not> is_empty_job ?j"
    using is_empty_job_iff [of ?j] by (simp add: at_least_two_def)
qed

subsection \<open>Field Extractor\<close>

lemma extract_text_miss:
  "\<forall>s \<in> set sels. \<not> locator_hits sp s \<Longrightarrow> extract_text_by_selectors sp sels d = d"
  by (induction sels) (auto simp: locator_hits_def split: option.splits)

lemma extract_text_skip:
  "\<forall>p \<in> set pre. \<not> locator_hits sp p \<Longrightarrow>
     extract_text_by_selectors sp (pre @ rest) d = extract_text_by_selectors sp rest d"
  by (induction pre) (auto simp: locator_hits_def split: option.splits)

lemma extract_text_hit:
  "locator_hits sp sel \<Longrightarrow>
     extract_text_by_selectors sp (sel # post) d = Some (locator_text sp sel)"
  by (auto simp: locator_hits_def locator_text_def split: option.splits)

text \<open>
  C8. Text extraction returns the text of the first locator, in order, that matches an
  element with non-empty trimmed text; what the later locators are and what the page answers
  to them does not matter. When no locator hits, the default is returned. In a chain of
  three locators of which only the second hits, the text of the second is returned.
\<close>

theorem extract_text_first_hit:
  "((\<forall>p \<in> set pre. \<not> locator_hits sp p) \<and> locator_hits sp sel \<longrightarrow>
      extract_text_by_selectors sp (pre @ sel # post) d = Some (locator_text sp sel) \<and>
      (\<forall>(sp'::soup) post'. (\<forall>q \<in> set (pre @ [sel]). select_one sp' q = select_one sp q) \<longrightarrow>
         extract_text_by_selectors sp' (pre @ sel # post') d =
         extract_text_by_selectors sp (pre @ sel # post) d)) \<and>
   ((\<forall>s \<in> set sels. \<not> locator_hits sp s) \<longrightarrow> extract_text_by_selectors sp sels d = d) \<and>
   (\<not> locator_hits sp a \<and> locator_hits sp b \<and> \<not> locator_hits sp c \<longrightarrow>
      extract_text_by_selectors sp [a, b, c] d = Some (locator_text sp b))"
proof (intro conjI impI allI)
  assume h: "(\<forall>p \<in> set pre. \<not> locator_hits sp p) \<and> locator_hits sp sel"
  then have pre: "\<forall>p \<in> set pre. \<not> locator_hits sp p" and hit: "locator_hits sp sel"
    by simp_all
  show first: "extract_text_by_selectors sp (pre @ sel # post) d = Some (locator_text sp sel)"
    using extract_text_skip [OF pre] extract_text_hit [OF hit] by simp
  fix sp' :: soup and post' :: "string list"
  assume agree: "\<forall>q \<in> set (pre @ [sel]). select_one sp' q = select_one sp q"
  then have pre': "\<forall>p \<in> set pre. \<not> locator_hits sp' p" and hit': "locator_hits sp' sel"
    using h by (auto simp: locator_hits_def)
  have "extract_text_by_selectors sp' (pre @ sel # post') d = Some (locator_text sp' sel)"
    using extract_text_skip [OF pre'] extract_text_hit [OF hit'] by simp
  also have "locator_text sp' sel = locator_text sp sel"
    using agree by (simp add: locator_text_def)
  finally show "extract_text_by_selectors sp' (pre @ sel # post') d =
                extract_text_by_selectors sp (pre @ sel # post) d"
    using first by simp
next
  assume "\<forall>s \<in> set sels. \<not> locator_hits sp s"
  then show "extract_text_by_selectors sp sels d = d"
    by (rule extract_text_miss)
next
  assume "\<not> locator_hits sp a \<and> locator_hits sp b \<and> \<not> locator_hits sp c"
  then have a: "\<forall>p \<in> set [a]. \<not> locator_hits sp p" and b: "locator_hits sp b"
    by simp_all
  show "extract_text_by_selectors sp [a, b, c] d = Some (locator_text sp b)"
    using extract_text_skip [OF a, of "[b, c]" d] extract_text_hit [OF b, of "[c]" d] by simp
qed

theorem extract_text_first_hit_witness:
  "extract_text_by_selectors page_only_location [''.job-location'', ''.location'', ''.job-address'']
     (Some ''Unknown Location'') = Some ''Tunis(remote)'' \<and>
   extract_text_by_selectors page_only_location [''.job-location'', ''.job-address'']
     (Some ''Unknown Location'') = Some ''Unknown Location''"
proof
  have miss: "\<not> locator_hits page_only_location ''.job-location''"
             "\<not> locator_hits page_only_location ''.job-address''"
    by (simp_all add: locator_hits_def page_only_location_def)
  have hit: "locator_hits page_only_location ''.location''"
    by (simp add: locator_hits_def page_only_location_def get_text_strip_def strip_def isspace_def)
  have ltext: "locator_text page_only_location ''.location'' = ''Tunis(remote)''"
    by (simp add: locator_text_def page_only_location_def get_text_strip_def strip_def isspace_def)
  have "extract_text_by_selectors page_only_location
          [''.job-location'', ''.location'', ''.job-address''] (Some ''Unknown Location'')
        = Some (locator_text page_only_location ''.location'')"
    using extract_text_first_hit [where sp = page_only_location and a = "''.job-location''"
            and b = "''.location''" and c = "''.job-address''" and d = "Some ''Unknown Location''",
            THEN conjunct2, THEN conjunct2]
          miss hit by blast
  then show "extract_text_by_selectors page_only_location
          [''.job-location'', ''.location'', ''.job-address''] (Some ''Unknown Location'')
        = Some ''Tunis(remote)''"
    by (simp only: ltext)
  have "\<forall>s \<in> set [''.job-location'', ''.job-address'']. \<not> locator_hits page_only_location s"
    using miss by simp
  then show "extract_text_by_selectors page_only_location [''.job-location'', ''.job-address'']
          (Some ''Unknown Location'') = Some ''Unknown Location''"
    using extract_text_first_hit [where sp = page_only_location
            and sels = "[''.job-location'', ''.job-address'']" and d = "Some ''Unknown Location''",
            THEN conjunct2, THEN conjunct1]
    by blast
qed

subsection \<open>Stripped text and the constructed record\<close>

lemma strip_ends:
  assumes "strip t \<noteq> []"
  shows "\<not> isspace (hd (strip t)) \<and> \<not> isspace (last (strip t))"
proof -
  let ?u = "dropWhile isspace t"
  let ?v = "dropWhile isspace (rev ?u)"
  have s: "strip t = rev ?v" by (simp add: strip_def)
  with assms have v: "?v \<noteq> []" by simp
  have u: "?u \<noteq> []"
  proof
    assume "?u = []"
    then have "?v = []" by (simp del: dropWhile_eq_Nil_conv)
    with v show False by simp
  qed
  have "\<not> isspace (hd ?v)" using v by (rule hd_dropWhile)
  then have l: "\<not> isspace (last (strip t))" using v by (simp add: s last_rev)
  have "rev ?u = takeWhile isspace (rev ?u) @ ?v" by simp
  then have "last (rev ?u) = last ?v" using v by (metis last_appendR)
  then have "last ?v = hd ?u" using u by (simp add: last_rev)
  moreover have "\<not> isspace (hd ?u)" using u by (rule hd_dropWhile)
  ultimately have "\<not> isspace (hd (strip t))" using v by (simp add: s hd_rev)
  with l show ?thesis by simp
qed

lemma strip_id:
  assumes "t = [] \<or> (\<not> isspace (hd t) \<and> \<not> isspace (last t))"
  shows "strip t = t"
proof (cases "t = []")
  case True
  then show ?thesis by (simp add: strip_def)
next
  case False
  with assms have h: "\<not> isspace (hd t)" and l: "\<not> isspace (last t)" by simp_all
  have "dropWhile isspace t = t" using False h by (cases t) simp_all
  moreover have "dropWhile isspace (rev t) = rev t"
    using False l by (cases "rev t") (simp_all add: last_rev [symmetric] hd_rev)
  ultimately show ?thesis by (simp add: strip_def)
qed

lemma concat_ends:
  "xs \<noteq> [] \<Longrightarrow> \<forall>x \<in> set xs. x \<noteq> [] \<and> P (hd x) \<and> P (last x) \<Longrightarrow>
     concat xs \<noteq> [] \<and> P (hd (concat xs)) \<and> P (last (concat xs))"
proof (induction xs)
  case Nil
  then show ?case by simp
next
  case (Cons x xs)
  show ?case
  proof (cases "xs = []")
    case True
    with Cons.prems show ?thesis by simp
  next
    case False
    with Cons have "concat xs \<noteq> [] \<and> P (hd (concat xs)) \<and> P (last (concat xs))" by simp
    with Cons.prems show ?thesis by simp
  qed
qed

lemma strip_get_text_strip: "strip (get_text_strip el) = get_text_strip el"
proof -
  let ?xs = "filter (\<lambda>t. t \<noteq> []) (map strip (el_strings el))"
  have all: "\<forall>x \<in> set ?xs. x \<noteq> [] \<and> \<not> isspace (hd x) \<and> \<not> isspace (last x)"
    using strip_ends by auto
  show ?thesis
  proof (cases "?xs = []")
    case True
    then show ?thesis by (simp add: get_text_strip_def strip_def)
  next
    case False
    from concat_ends [OF False, of "\<lambda>c. \<not> isspace c"] all
    have "\<not> isspace (hd (concat ?xs)) \<and> \<not> isspace (last (concat ?xs))" by blast
    then show ?thesis unfolding get_text_strip_def by (intro strip_id) simp
  qed
qed

lemma extract_text_stripped:
  "extract_text_by_selectors sp sels (Some d) = Some l \<Longrightarrow> strip d = d \<Longrightarrow> strip l = l"
  by (induction sels) (auto simp: strip_get_text_strip split: option.splits if_splits)

lemma extract_text_Some:
  "\<exists>t. extract_text_by_selectors sp sels (Some d) = Some t"
  by (induction sels) (auto split: option.splits)

lemma extract_text_None_default:
  "extract_text_by_selectors sp sels None = Some a \<Longrightarrow> a \<noteq> []"
  by (induction sels) (auto split: option.splits if_splits)

lemma construct_job_Some: "\<exists>job. construct_job w base sp jid = Some job"
proof -
  obtain t c l d r p where
    "extract_text_by_selectors sp title_selectors (Some ''Unknown Title'') = Some t"
    "extract_text_by_selectors sp company_selectors (Some ''Unknown Company'') = Some c"
    "extract_text_by_selectors sp location_selectors (Some ''Unknown Location'') = Some l"
    "extract_text_by_selectors sp description_selectors (Some ''No description available'') = Some d"
    "extract_text_by_selectors sp requirements_selectors (Some ''No requirements specified'') = Some r"
    "extract_text_by_selectors sp date_selectors (Some ''Unknown Date'') = Some p"
    using extract_text_Some by metis
  then show ?thesis by (simp add: construct_job_def Let_def)
qed

lemma construct_job_caps:
  "construct_job w base sp jid = Some job \<Longrightarrow>
     length (description job) \<le> 1000 \<and> length (requirements job) \<le> 500"
  by (auto simp: construct_job_def post_init_def Let_def split: option.splits if_splits)

lemma extract_job_data_Job:
  "extract_job_data w jid s = (Job job, s1) \<Longrightarrow>
     \<exists>final_url sp. driver_get w (job_url_of (base_url s) jid) = Some (final_url, sp) \<and>
        \<not> is_redirected_to_home (base_url s) final_url \<and>
        construct_job w (base_url s) sp jid = Some job \<and> \<not> is_empty_job job"
  unfolding extract_job_data_def Let_def
  by (auto split: option.splits if_splits prod.splits)

subsection \<open>Field caps, location and job function\<close>

lemma strip_replicate: "\<not> isspace c \<Longrightarrow> strip (replicate n c) = replicate n c"
  by (rule strip_id) (cases n, simp_all)

lemma sel_long:
  "select_one long_page sel =
     (if sel = ''#jobPageJobTitle'' then Some \<lparr> el_strings = [''Data Engineer''], el_attrs = [] \<rparr>
      else if sel = ''#jobPageDescription'' then Some \<lparr> el_strings = [replicate 1500 (CHR ''x'')], el_attrs = [] \<rparr>
      else if sel = ''.requirements'' then Some \<lparr> el_strings = [replicate 700 (CHR ''y'')], el_attrs = [] \<rparr>
      else None)"
  by (simp add: long_page_def page_of_def)

lemma long_description:
  "extract_text_by_selectors long_page description_selectors (Some ''No description available'')
   = Some (replicate 1500 (CHR ''x''))"
  by (simp add: description_selectors_def sel_long get_text_strip_def strip_replicate isspace_def)

lemma long_requirements:
  "extract_text_by_selectors long_page requirements_selectors (Some ''No requirements specified'')
   = Some (replicate 700 (CHR ''y''))"
  by (simp add: requirements_selectors_def sel_long get_text_strip_def strip_replicate isspace_def)

text \<open>
  C9. Every record that \<open>extract_job_data\<close> constructs has a description of at most 1000
  characters and requirements of at most 500 characters, whatever the page holds; and the
  construction always yields a record.
\<close>

theorem field_caps:
  "(\<exists>job. construct_job w base sp jid = Some job) \<and>
   (\<forall>job. construct_job w base sp jid = Some job \<longrightarrow>
      length (description job) \<le> 1000 \<and> length (requirements job) \<le> 500) \<and>
   (\<forall>job s1. extract_job_data w jid s = (Job job, s1) \<longrightarrow>
      length (description job) \<le> 1000 \<and> length (requirements job) \<le> 500)"
proof (intro conjI allI impI)
  show "\<exists>job. construct_job w base sp jid = Some job"
    by (rule construct_job_Some)
next
  fix job
  assume "construct_job w base sp jid = Some job"
  then show "length (description job) \<le> 1000" "length (requirements job) \<le> 500"
    using construct_job_caps by blast+
next
  fix job s1
  assume "extract_job_data w jid s = (Job job, s1)"
  then obtain page where "construct_job w (base_url s) page jid = Some job"
    using extract_job_data_Job by blast
  then show "length (description job) \<le> 1000" "length (requirements job) \<le> 500"
    using construct_job_caps by blast+
qed

theorem field_caps_witness:
  "\<exists>job. construct_job (example_world (\<lambda>u. None)) ''https://espritconnect.com'' long_page 795 = Some job \<and>
     description job = replicate 1000 (CHR ''x'') \<and> length (description job) \<le> 1000 \<and>
     requirements job = replicate 500 (CHR ''y'') \<and> length (requirements job) \<le> 500"
proof -
  let ?w = "example_world (\<lambda>u. None)"
  obtain job where j: "construct_job ?w ''https://espritconnect.com'' long_page 795 = Some job"
    and caps: "length (description job) \<le> 1000 \<and> length (requirements job) \<le> 500"
    using field_caps [of ?w "''https://espritconnect.com''" long_page 795] by blast
  obtain t c l p where
    "extract_text_by_selectors long_page title_selectors (Some ''Unknown Title'') = Some t"
    "extract_text_by_selectors long_page company_selectors (Some ''Unknown Company'') = Some c"
    "extract_text_by_selectors long_page location_selectors (Some ''Unknown Location'') = Some l"
    "extract_text_by_selectors long_page date_selectors (Some ''Unknown Date'') = Some p"
    using extract_text_Some by metis
  with j have "description job = replicate 1000 (CHR ''x'')" "requirements job = replicate 500 (CHR ''y'')"
    by (auto simp: construct_job_def Let_def post_init_def long_description long_requirements
          strip_replicate isspace_def)
  with j caps show ?thesis by blast
qed

lemma extract_text_find:
  "extract_text_by_selectors sp sels d =
     (case find (locator_hits sp) sels of None \<Rightarrow> d | Some sel \<Rightarrow> Some (locator_text sp sel))"
  by (induction sels) (auto simp: locator_hits_def locator_text_def split: option.splits)

lemma construct_job_location:
  "construct_job w base sp jid = Some job \<Longrightarrow>
     \<exists>l. extract_text_by_selectors sp location_selectors (Some ''Unknown Location'') = Some l \<and>
         location job =
           (case extract_text_by_selectors sp actual_location_selectors None of
              None \<Rightarrow> strip l | Some a \<Rightarrow> if a \<noteq> [] then a else strip l) \<and>
         job_function job =
           (if truthy (extract_text_by_selectors sp actual_location_selectors None)
            then Some l else None)"
  by (auto simp: construct_job_def post_init_def Let_def split: option.splits if_splits)

lemma strip_unknown_location: "strip ''Unknown Location'' = ''Unknown Location''"
  by (simp add: strip_def isspace_def)

text \<open>
  C10. For a record that \<open>extract_job_data\<close> returns: when one of the actual-location
  selectors hits, the location is the text of the first that does and the job function is
  the result of the location-selector chain; otherwise the location is the result of that
  chain (\<open>Unknown Location\<close> when it finds nothing) and the job function is absent.
\<close>

theorem location_and_job_function:
  assumes "extract_job_data w jid s = (Job job, s1)"
  shows "\<exists>final_url sp l.
           driver_get w (job_url_of (base_url s) jid) = Some (final_url, sp) \<and>
           extract_text_by_selectors sp location_selectors (Some ''Unknown Location'') = Some l \<and>
           (case find (locator_hits sp) actual_location_selectors of
              Some sel \<Rightarrow> location job = locator_text sp sel \<and> job_function job = Some l
            | None \<Rightarrow> location job = l \<and> job_function job = None)"
proof -
  from assms obtain final_url sp where
    get: "driver_get w (job_url_of (base_url s) jid) = Some (final_url, sp)" and
    con: "construct_job w (base_url s) sp jid = Some job"
    using extract_job_data_Job by blast
  from construct_job_location [OF con] obtain l where
    l: "extract_text_by_selectors sp location_selectors (Some ''Unknown Location'') = Some l" and
    loc: "location job =
           (case extract_text_by_selectors sp actual_location_selectors None of
              None \<Rightarrow> strip l | Some a \<Rightarrow> if a \<noteq> [] then a else strip l)" and
    fn: "job_function job =
           (if truthy (extract_text_by_selectors sp actual_location_selectors None)
            then Some l else None)"
    by blast
  have sl: "strip l = l"
    using l strip_unknown_location by (rule extract_text_stripped)
  have "case find (locator_hits sp) actual_location_selectors of
          Some sel \<Rightarrow> location job = locator_text sp sel \<and> job_function job = Some l
        | None \<Rightarrow> location job = l \<and> job_function job = None"
  proof (cases "find (locator_hits sp) actual_location_selectors")
    case None
    then have "extract_text_by_selectors sp actual_location_selectors None = None"
      by (simp add: extract_text_find)
    then show ?thesis using None loc fn sl by (simp add: truthy_def)
  next
    case (Some sel)
    then have a: "extract_text_by_selectors sp actual_location_selectors None
                  = Some (locator_text sp sel)"
      by (simp add: extract_text_find)
    then have "locator_text sp sel \<noteq> []"
      by (rule extract_text_None_default)
    then show ?thesis using Some loc fn a by (simp add: truthy_def)
  qed
  with get l show ?thesis by blast
qed

lemma located_extract:
  "extract_job_data (example_world located_browser) 795 (scraper_init no_files)
   = (Job located_job,
      (scraper_init no_files)\<lparr>visited := [''https://espritconnect.com/jobs/795'']\<rparr>)"
  by (simp add: extract_job_data_def Let_def scraper_init_def job_url_of_def str_int_def
        str_nat.simps digit_char_def example_world_def located_browser_def
        is_redirected_to_home_def endswith_def construct_job_def located_page_def page_of_def
        title_selectors_def company_selectors_def location_selectors_def
        description_selectors_def requirements_selectors_def date_selectors_def
        image_selectors_def company_logo_selectors_def employment_type_selectors_def
        industry_selectors_def actual_location_selectors_def get_text_strip_def strip_def
        isspace_def find_closing_date_def find_added_by_def truthy_def el_get_def
        is_empty_job_def empty_indicators_def lower_def lower_char_def char_of_eq_iff
        post_init_def located_job_def)

theorem location_and_job_function_witness:
  "extract_job_data (example_world located_browser) 795 (scraper_init no_files)
     = (Job located_job,
        (scraper_init no_files)\<lparr>visited := [''https://espritconnect.com/jobs/795'']\<rparr>) \<and>
   location located_job = ''Tunis'' \<and> job_function located_job = Some ''Engineering'' \<and>
   (\<exists>final_url sp l.
      driver_get (example_world located_browser)
        (job_url_of (base_url (scraper_init no_files)) 795) = Some (final_url, sp) \<and>
      extract_text_by_selectors sp location_selectors (Some ''Unknown Location'') = Some l \<and>
      (case find (locator_hits sp) actual_location_selectors of
         Some sel \<Rightarrow> location located_job = locator_text sp sel \<and> job_function located_job = Some l
       | None \<Rightarrow> location located_job = l \<and> job_function located_job = None))"
proof (intro conjI)
  show "extract_job_data (example_world located_browser) 795 (scraper_init no_files)
     = (Job located_job,
        (scraper_init no_files)\<lparr>visited := [''https://espritconnect.com/jobs/795'']\<rparr>)"
    by (rule located_extract)
  show "location located_job = ''Tunis''" "job_function located_job = Some ''Engineering''"
    by (simp_all add: located_job_def)
  show "\<exists>final_url sp l.
      driver_get (example_world located_browser)
        (job_url_of (base_url (scraper_init no_files)) 795) = Some (final_url, sp) \<and>
      extract_text_by_selectors sp location_selectors (Some ''Unknown Location'') = Some l \<and>
      (case find (locator_hits sp) actual_location_selectors of
         Some sel \<Rightarrow> location located_job = locator_text sp sel \<and> job_function located_job = Some l
       | None \<Rightarrow> location located_job = l \<and> job_function located_job = None)"
    by (rule location_and_job_function [OF located_extract])
qed

subsection \<open>Job Walker: frame and unfolding lemmas\<close>

lemma save_last_job_id_frame:
  "current_job_id (save_last_job_id w j s) = current_job_id s"
  "jobs_scraped (save_last_job_id w j s) = jobs_scraped s"
  "existing_job_ids (save_last_job_id w j s) = existing_job_ids s"
  "visited (save_last_job_id w j s) = visited s"
  "base_url (save_last_job_id w j s) = base_url s"
  by (simp_all add: save_last_job_id_def Let_def)

lemma save_last_job_id_written:
  "state_write_ok w \<Longrightarrow>
     sf_last_job_id (state_file (files (save_last_job_id w j s))) = Some j"
  by (simp add: save_last_job_id_def Let_def)

lemma save_progress_frame:
  "current_job_id (snd (save_progress w s)) = current_job_id s"
  "jobs_scraped (snd (save_progress w s)) = jobs_scraped s"
  "existing_job_ids (snd (save_progress w s)) = existing_job_ids s"
  "visited (snd (save_progress w s)) = visited s"
  "base_url (snd (save_progress w s)) = base_url s"
  "state_file (files (snd (save_progress w s))) = state_file (files s)"
  by (simp_all add: save_progress_def save_results_def split: sum.splits)

lemma extract_job_data_NoJob:
  "extract_job_data w jid s = (NoJob, s1) \<Longrightarrow>
     s1 = s\<lparr>visited := visited s @ [job_url_of (base_url s) jid]\<rparr>"
  unfolding extract_job_data_def Let_def
  by (auto split: option.splits if_splits prod.splits)

lemma extract_job_data_EMPTY:
  "extract_job_data w jid s = (EMPTY_JOB_STOP, s1) \<Longrightarrow>
     s1 = save_last_job_id w jid (s\<lparr>visited := visited s @ [job_url_of (base_url s) jid]\<rparr>)"
  unfolding extract_job_data_def Let_def
  by (auto split: option.splits if_splits prod.splits)

lemma extract_job_data_Job_state:
  "extract_job_data w jid s = (Job job, s1) \<Longrightarrow>
     s1 = s\<lparr>visited := visited s @ [job_url_of (base_url s) jid]\<rparr>"
  unfolding extract_job_data_def Let_def
  by (auto split: option.splits if_splits prod.splits)

lemma extract_job_data_visited:
  "extract_job_data w jid s = (r, s1) \<Longrightarrow>
     visited s1 = visited s @ [job_url_of (base_url s) jid] \<and> base_url s1 = base_url s"
  by (cases r)
     (auto dest: extract_job_data_NoJob extract_job_data_EMPTY extract_job_data_Job_state
           simp: save_last_job_id_frame)

lemma scrape_loop_done:
  "\<not> n < max_jobs \<Longrightarrow> scrape_loop w max_jobs n s = (Inr (), s)"
  by (simp add: scrape_loop.simps)

lemma scrape_loop_NoJob:
  "n < max_jobs \<Longrightarrow> extract_job_data w (current_job_id s) s = (NoJob, s1) \<Longrightarrow>
     scrape_loop w max_jobs n s = save_progress w s1"
  by (simp add: scrape_loop.simps [of w max_jobs n s])

lemma scrape_loop_EMPTY:
  "n < max_jobs \<Longrightarrow> extract_job_data w (current_job_id s) s = (EMPTY_JOB_STOP, s1) \<Longrightarrow>
     scrape_loop w max_jobs n s = save_progress w s1"
  by (simp add: scrape_loop.simps [of w max_jobs n s])

lemma scrape_loop_Job:
  "n < max_jobs \<Longrightarrow> extract_job_data w (current_job_id s) s = (Job job, s1) \<Longrightarrow>
     scrape_loop w max_jobs n s =
       scrape_loop w max_jobs (fst (accept_job job (n, s1))) (advance (snd (accept_job job (n, s1))))"
  by (simp add: scrape_loop.simps [of w max_jobs n s])

lemma accept_job_frame:
  "visited (snd (accept_job job (n, s))) = visited s"
  "base_url (snd (accept_job job (n, s))) = base_url s"
  "current_job_id (snd (accept_job job (n, s))) = current_job_id s"
  "files (snd (accept_job job (n, s))) = files s"
  by (simp_all add: accept_job_def)

lemma advance_frame:
  "visited (advance s) = visited s"
  "base_url (advance s) = base_url s"
  "jobs_scraped (advance s) = jobs_scraped s"
  "existing_job_ids (advance s) = existing_job_ids s"
  "files (advance s) = files s"
  "current_job_id (advance s) = current_job_id s + 1"
  by (simp_all add: advance_def)

lemma scrape_loop_visited_prefix:
  "prefix (visited s) (visited (snd (scrape_loop w max_jobs n s)))"
proof (induction w max_jobs n s rule: scrape_loop.induct)
  case (1 w max_jobs n s)
  show ?case
  proof (cases "n < max_jobs")
    case False
    then show ?thesis by (simp add: scrape_loop_done)
  next
    case True
    obtain r s1 where ex: "extract_job_data w (current_job_id s) s = (r, s1)"
      by (cases "extract_job_data w (current_job_id s) s")
    then have v: "prefix (visited s) (visited s1)"
      using extract_job_data_visited by fastforce
    show ?thesis
    proof (cases r)
      case NoJob
      then show ?thesis
        using True ex v by (simp add: scrape_loop_NoJob save_progress_frame)
    next
      case EMPTY_JOB_STOP
      then show ?thesis
        using True ex v by (simp add: scrape_loop_EMPTY save_progress_frame)
    next
      case (Job job)
      with ex have ex': "extract_job_data w (current_job_id s) s = (Job job, s1)" by simp
      have "prefix (visited (advance (snd (accept_job job (n, s1)))))
              (visited (snd (scrape_loop w max_jobs (fst (accept_job job (n, s1)))
                                   (advance (snd (accept_job job (n, s1)))))))"
        using "1.IH" [OF True ex [symmetric] Job] .
      then have "prefix (visited s1) (visited (snd (scrape_loop w max_jobs n s)))"
        using True ex' by (simp add: scrape_loop_Job advance_frame accept_job_frame)
      with v show ?thesis by (rule prefix_order.trans)
    qed
  qed
qed

lemma scrape_loop_first_fetch:
  assumes "n < max_jobs"
  shows "prefix (visited s @ [job_url_of (base_url s) (current_job_id s)])
           (visited (snd (scrape_loop w max_jobs n s)))"
proof -
  obtain r s1 where ex: "extract_job_data w (current_job_id s) s = (r, s1)"
    by (cases "extract_job_data w (current_job_id s) s")
  then have v: "visited s1 = visited s @ [job_url_of (base_url s) (current_job_id s)]"
    using extract_job_data_visited by blast
  show ?thesis
  proof (cases r)
    case NoJob
    then show ?thesis using assms ex v by (simp add: scrape_loop_NoJob save_progress_frame)
  next
    case EMPTY_JOB_STOP
    then show ?thesis using assms ex v by (simp add: scrape_loop_EMPTY save_progress_frame)
  next
    case (Job job)
    with ex have ex': "extract_job_data w (current_job_id s) s = (Job job, s1)" by simp
    have "prefix (visited (advance (snd (accept_job job (n, s1)))))
            (visited (snd (scrape_loop w max_jobs (fst (accept_job job (n, s1)))
                                 (advance (snd (accept_job job (n, s1)))))))"
      by (rule scrape_loop_visited_prefix)
    then show ?thesis
      using assms ex' v by (simp add: scrape_loop_Job advance_frame accept_job_frame)
  qed
qed

lemma scrape_jobs_visited:
  "login_ok w \<Longrightarrow>
     visited (snd (scrape_jobs w max_jobs s)) = visited (snd (scrape_loop w max_jobs 0 s))"
  by (simp add: scrape_jobs_def Let_def save_last_job_id_frame split: prod.splits sum.splits)

subsection \<open>Resuming from the cursor\<close>

text \<open>
  C5. With a persisted cursor \<open>N\<close> greater than the initial ID, the next walk starts at
  \<open>N - 1\<close>; with the state file absent or unreadable, it starts at the initial ID. The
  start is the current ID after construction, and the first page a walk asks the browser
  for is the page of that ID.
\<close>

theorem resume_start:
  "(state_file d = StateFile (Some N) runs \<and> initial_job_id (scraper_init d) < N \<longrightarrow>
      current_job_id (scraper_init d) = N - 1) \<and>
   (state_file d = NoFile \<or> state_file d = BadFile \<longrightarrow>
      current_job_id (scraper_init d) = initial_job_id (scraper_init d)) \<and>
   (login_ok w \<and> 0 < max_jobs \<longrightarrow>
      prefix [job_url_of (base_url (scraper_init d)) (current_job_id (scraper_init d))]
        (visited (snd (scrape_jobs w max_jobs (scraper_init d)))))"
proof (intro conjI impI)
  assume "state_file d = StateFile (Some N) runs \<and> initial_job_id (scraper_init d) < N"
  then show "current_job_id (scraper_init d) = N - 1"
    by (simp add: scraper_init_def load_last_job_id_def Let_def)
next
  assume "state_file d = NoFile \<or> state_file d = BadFile"
  then show "current_job_id (scraper_init d) = initial_job_id (scraper_init d)"
    by (auto simp: scraper_init_def load_last_job_id_def Let_def)
next
  assume a: "login_ok w \<and> 0 < max_jobs"
  have v: "visited (scraper_init d) = []"
    by (simp add: scraper_init_def Let_def)
  from a have "prefix (visited (scraper_init d) @
                  [job_url_of (base_url (scraper_init d)) (current_job_id (scraper_init d))])
                (visited (snd (scrape_loop w max_jobs 0 (scraper_init d))))"
    by (intro scrape_loop_first_fetch) simp
  then show "prefix [job_url_of (base_url (scraper_init d)) (current_job_id (scraper_init d))]
               (visited (snd (scrape_jobs w max_jobs (scraper_init d))))"
    using a by (simp add: scrape_jobs_visited v)
qed

theorem resume_start_witness:
  "current_job_id (scraper_init files_at_812) = 811 \<and>
   current_job_id (scraper_init no_files) = 795 \<and>
   prefix [''https://espritconnect.com/jobs/811'']
     (visited (snd (scrape_jobs (example_world (\<lambda>u. None)) 200 (scraper_init files_at_812))))"
proof (intro conjI)
  have i: "initial_job_id (scraper_init files_at_812) = 795"
          "initial_job_id (scraper_init no_files) = 795"
    by (simp_all add: scraper_init_def Let_def)
  show c: "current_job_id (scraper_init files_at_812) = 811"
    using resume_start [of files_at_812 812 "Some 4"] i by (simp add: files_at_812_def)
  show "current_job_id (scraper_init no_files) = 795"
    using resume_start [of no_files] i by (simp add: no_files_def)
  have u: "job_url_of (base_url (scraper_init files_at_812)) 811 = ''https://espritconnect.com/jobs/811''"
    by (simp add: scraper_init_def Let_def job_url_of_def str_int_def str_nat.simps digit_char_def)
  show "prefix [''https://espritconnect.com/jobs/811'']
     (visited (snd (scrape_jobs (example_world (\<lambda>u. None)) 200 (scraper_init files_at_812))))"
    using resume_start [of files_at_812 _ _ "example_world (\<lambda>u. None)" 200] c u
    by (simp add: example_world_def)
qed

subsection \<open>Job Walker: one iteration\<close>

lemma extract_valid:
  "valid_page w (base_url s) jid job \<Longrightarrow>
     extract_job_data w jid s = (Job job, s\<lparr>visited := visited s @ [job_url_of (base_url s) jid]\<rparr>)"
  by (auto simp: valid_page_def extract_job_data_def Let_def split: option.splits)

lemma extract_empty:
  "empty_page w (base_url s) jid \<Longrightarrow>
     extract_job_data w jid s =
       (EMPTY_JOB_STOP,
        save_last_job_id w jid (s\<lparr>visited := visited s @ [job_url_of (base_url s) jid]\<rparr>))"
  by (auto simp: empty_page_def extract_job_data_def Let_def split: option.splits)

lemma extract_missing:
  "missing_page w (base_url s) jid \<Longrightarrow>
     extract_job_data w jid s = (NoJob, s\<lparr>visited := visited s @ [job_url_of (base_url s) jid]\<rparr>)"
  by (auto simp: missing_page_def extract_job_data_def Let_def split: option.splits)

lemma extract_raises:
  "fetch_raises w (base_url s) jid \<Longrightarrow>
     extract_job_data w jid s = (NoJob, s\<lparr>visited := visited s @ [job_url_of (base_url s) jid]\<rparr>)"
  by (simp add: fetch_raises_def extract_job_data_def Let_def)

lemma loop_accept:
  assumes "n < max_jobs" "valid_page w (base_url s) (current_job_id s) job"
    "current_job_id s |\<notin>| existing_job_ids s"
  shows "scrape_loop w max_jobs n s =
           scrape_loop w max_jobs (n + 1)
             (s\<lparr>current_job_id := current_job_id s + 1,
                jobs_scraped := jobs_scraped s @ [job],
                existing_job_ids := finsert (current_job_id s) (existing_job_ids s),
                visited := visited s @ [job_url_of (base_url s) (current_job_id s)]\<rparr>)"
proof -
  let ?s1 = "s\<lparr>visited := visited s @ [job_url_of (base_url s) (current_job_id s)]\<rparr>"
  have ex: "extract_job_data w (current_job_id s) s = (Job job, ?s1)"
    using assms(2) by (rule extract_valid)
  have id: "job_id job = current_job_id s"
    using ex by (rule extract_job_data_id)
  have "advance (snd (accept_job job (n, ?s1))) =
          s\<lparr>current_job_id := current_job_id s + 1,
            jobs_scraped := jobs_scraped s @ [job],
            existing_job_ids := finsert (current_job_id s) (existing_job_ids s),
            visited := visited s @ [job_url_of (base_url s) (current_job_id s)]\<rparr>"
    using assms(3) id by (cases s) (simp add: accept_job_def advance_def)
  moreover have "fst (accept_job job (n, ?s1)) = n + 1"
    using assms(3) id by (simp add: accept_job_def)
  ultimately show ?thesis
    by (simp only: scrape_loop_Job [OF assms(1) ex])
qed


lemma loop_missing:
  assumes "n < max_jobs" "missing_page w (base_url s) (current_job_id s)"
  shows "scrape_loop w max_jobs n s =
           save_progress w (s\<lparr>visited := visited s @ [job_url_of (base_url s) (current_job_id s)]\<rparr>)"
  using assms(1) extract_missing [OF assms(2)] by (rule scrape_loop_NoJob)

lemma loop_raises:
  assumes "n < max_jobs" "fetch_raises w (base_url s) (current_job_id s)"
  shows "scrape_loop w max_jobs n s =
           save_progress w (s\<lparr>visited := visited s @ [job_url_of (base_url s) (current_job_id s)]\<rparr>)"
  using assms(1) extract_raises [OF assms(2)] by (rule scrape_loop_NoJob)

lemma loop_empty:
  assumes "n < max_jobs" "empty_page w (base_url s) (current_job_id s)"
  shows "scrape_loop w max_jobs n s =
           save_progress w
             (save_last_job_id w (current_job_id s)
                (s\<lparr>visited := visited s @ [job_url_of (base_url s) (current_job_id s)]\<rparr>))"
  using assms(1) extract_empty [OF assms(2)] by (rule scrape_loop_EMPTY)

subsection \<open>Scenario A\<close>

lemma construct_located:
  "construct_job w base located_page jid =
     Some (located_job\<lparr>job_id := jid, url := job_url_of base jid, scraped_at := now w\<rparr>)"
  by (simp add: construct_job_def Let_def located_page_def page_of_def
        title_selectors_def company_selectors_def location_selectors_def
        description_selectors_def requirements_selectors_def date_selectors_def
        image_selectors_def company_logo_selectors_def employment_type_selectors_def
        industry_selectors_def actual_location_selectors_def get_text_strip_def strip_def
        isspace_def find_closing_date_def find_added_by_def truthy_def el_get_def
        post_init_def located_job_def)

lemma located_not_empty:
  "\<not> is_empty_job (located_job\<lparr>job_id := jid, url := u, scraped_at := t\<rparr>)"
  by (simp add: is_empty_job_def empty_indicators_def located_job_def strip_def isspace_def
        lower_def lower_char_def char_of_eq_iff)

lemma valid_located:
  "driver_get w (job_url_of base jid) = Some (final_url, located_page) \<Longrightarrow>
   \<not> is_redirected_to_home base final_url \<Longrightarrow>
     valid_page w base jid (located_job\<lparr>job_id := jid, url := job_url_of base jid, scraped_at := now w\<rparr>)"
  by (simp add: valid_page_def construct_located located_not_empty)

lemma job_urls:
  "job_url_of ''https://espritconnect.com'' 795 = ''https://espritconnect.com/jobs/795''"
  "job_url_of ''https://espritconnect.com'' 796 = ''https://espritconnect.com/jobs/796''"
  "job_url_of ''https://espritconnect.com'' 797 = ''https://espritconnect.com/jobs/797''"
  "job_url_of ''https://espritconnect.com'' 798 = ''https://espritconnect.com/jobs/798''"
  by (simp_all add: job_url_of_def str_int_def str_nat.simps digit_char_def)

lemma not_redirected_urls:
  "\<not> is_redirected_to_home ''https://espritconnect.com'' ''https://espritconnect.com/jobs/795''"
  "\<not> is_redirected_to_home ''https://espritconnect.com'' ''https://espritconnect.com/jobs/796''"
  "\<not> is_redirected_to_home ''https://espritconnect.com'' ''https://espritconnect.com/jobs/797''"
  by (simp_all add: is_redirected_to_home_def endswith_def)

lemma redirected_feed:
  "is_redirected_to_home ''https://espritconnect.com'' ''https://espritconnect.com/feed''"
  by (simp add: is_redirected_to_home_def endswith_def)

lemma scraper_init_fields:
  "initial_job_id (scraper_init d) = 795"
  "base_url (scraper_init d) = ''https://espritconnect.com''"
  "jobs_scraped (scraper_init d) = []"
  "existing_job_ids (scraper_init d) = load_existing_job_ids d"
  "files (scraper_init d) = d"
  "visited (scraper_init d) = []"
  by (simp_all add: scraper_init_def Let_def)

lemma scraper_init_fresh:
  "state_file d = NoFile \<Longrightarrow> current_job_id (scraper_init d) = 795"
  by (simp add: scraper_init_def Let_def load_last_job_id_def)

lemma three_then_missing:
  assumes ok: "login_ok w" "state_write_ok w" "save_results_ok w" "generate_feeds_ok w"
    and quota: "3 \<le> max_jobs"
    and start: "jobs_scraped s = []" "state_file (files s) = NoFile"
    and fresh: "current_job_id s |\<notin>| existing_job_ids s"
               "current_job_id s + 1 |\<notin>| existing_job_ids s"
               "current_job_id s + 2 |\<notin>| existing_job_ids s"
    and pages: "valid_page w (base_url s) (current_job_id s) j1"
               "valid_page w (base_url s) (current_job_id s + 1) j2"
               "valid_page w (base_url s) (current_job_id s + 2) j3"
               "missing_page w (base_url s) (current_job_id s + 3)"
  shows "fst (scrape_jobs w max_jobs s) = Inr [j1, j2, j3] \<and>
         state_file (files (snd (scrape_jobs w max_jobs s)))
           = StateFile (Some (current_job_id s + 2)) (Some 1)"
proof -
  let ?c = "current_job_id s" and ?b = "base_url s" and ?E = "existing_job_ids s"
  define s1 where "s1 = s\<lparr>current_job_id := ?c + 1, jobs_scraped := jobs_scraped s @ [j1],
      existing_job_ids := finsert ?c ?E, visited := visited s @ [job_url_of ?b ?c]\<rparr>"
  define s2 where "s2 = s1\<lparr>current_job_id := current_job_id s1 + 1,
      jobs_scraped := jobs_scraped s1 @ [j2],
      existing_job_ids := finsert (current_job_id s1) (existing_job_ids s1),
      visited := visited s1 @ [job_url_of (base_url s1) (current_job_id s1)]\<rparr>"
  define s3 where "s3 = s2\<lparr>current_job_id := current_job_id s2 + 1,
      jobs_scraped := jobs_scraped s2 @ [j3],
      existing_job_ids := finsert (current_job_id s2) (existing_job_ids s2),
      visited := visited s2 @ [job_url_of (base_url s2) (current_job_id s2)]\<rparr>"
  have f1: "current_job_id s1 = ?c + 1" "base_url s1 = ?b" "existing_job_ids s1 = finsert ?c ?E"
           "jobs_scraped s1 = [j1]" "state_file (files s1) = NoFile"
    using start by (simp_all add: s1_def)
  have f2: "current_job_id s2 = ?c + 2" "base_url s2 = ?b"
           "existing_job_ids s2 = finsert (?c + 1) (finsert ?c ?E)"
           "jobs_scraped s2 = [j1, j2]" "state_file (files s2) = NoFile"
    using f1 by (simp_all add: s2_def)
  have f3: "current_job_id s3 = ?c + 3" "base_url s3 = ?b"
           "jobs_scraped s3 = [j1, j2, j3]" "state_file (files s3) = NoFile"
    using f2 by (simp_all add: s3_def)
  have l1: "scrape_loop w max_jobs 0 s = scrape_loop w max_jobs 1 s1"
    unfolding s1_def using quota pages(1) fresh(1) by (intro loop_accept [where n = 0, simplified]) simp_all
  have l2: "scrape_loop w max_jobs 1 s1 = scrape_loop w max_jobs 2 s2"
    unfolding s2_def using quota pages(2) fresh(2) f1
    by (intro loop_accept [where n = 1, simplified]) simp_all
  have l3: "scrape_loop w max_jobs 2 s2 = scrape_loop w max_jobs 3 s3"
    unfolding s3_def using quota pages(3) fresh(3) f2
    by (intro loop_accept [where n = 2, simplified]) simp_all
  have l4: "\<exists>s4. scrape_loop w max_jobs 3 s3 = (Inr (), s4) \<and> current_job_id s4 = ?c + 3 \<and>
              jobs_scraped s4 = [j1, j2, j3] \<and> state_file (files s4) = NoFile"
  proof (cases "3 < max_jobs")
    case False
    then show ?thesis using f3 by (simp add: scrape_loop_done)
  next
    case True
    let ?t = "s3\<lparr>visited := visited s3 @ [job_url_of (base_url s3) (current_job_id s3)]\<rparr>"
    have "scrape_loop w max_jobs 3 s3 = save_progress w ?t"
      using True pages(4) f3 by (intro loop_missing) simp_all
    moreover have "fst (save_progress w ?t) = Inr ()"
      using ok f3 by (simp add: save_progress_def save_results_def)
    ultimately show ?thesis
      using f3 by (intro exI [of _ "snd (save_progress w ?t)"])
                  (simp add: save_progress_frame prod_eq_iff)
  qed
  then obtain s4 where r: "scrape_loop w max_jobs 0 s = (Inr (), s4)"
    and f4: "current_job_id s4 = ?c + 3" "jobs_scraped s4 = [j1, j2, j3]"
            "state_file (files s4) = NoFile"
    using l1 l2 l3 by auto
  show ?thesis
    using ok r f4
    by (simp add: scrape_jobs_def Let_def save_last_job_id_frame save_last_job_id_def)
qed

lemma valid_page_id: "valid_page w base jid job \<Longrightarrow> job_id job = jid"
  by (auto simp: valid_page_def construct_job_id split: option.splits)

lemma missing_feed:
  "driver_get w (job_url_of ''https://espritconnect.com'' jid)
     = Some (''https://espritconnect.com'' @ ''/feed'', sp) \<Longrightarrow>
   missing_page w ''https://espritconnect.com'' jid"
  using redirected_feed by (simp add: missing_page_def)

lemma scenario_a_pages:
  "valid_page (example_world scenario_a_browser) ''https://espritconnect.com'' 795
     (located_job\<lparr>job_id := 795, url := ''https://espritconnect.com/jobs/795'',
                  scraped_at := ''2025-01-01T00:00:00''\<rparr>)"
  "valid_page (example_world scenario_a_browser) ''https://espritconnect.com'' 796
     (located_job\<lparr>job_id := 796, url := ''https://espritconnect.com/jobs/796'',
                  scraped_at := ''2025-01-01T00:00:00''\<rparr>)"
  "valid_page (example_world scenario_a_browser) ''https://espritconnect.com'' 797
     (located_job\<lparr>job_id := 797, url := ''https://espritconnect.com/jobs/797'',
                  scraped_at := ''2025-01-01T00:00:00''\<rparr>)"
  "driver_get (example_world scenario_a_browser) (job_url_of ''https://espritconnect.com'' 798)
     = Some (''https://espritconnect.com'' @ ''/feed'', page_of [])"
proof -
  let ?w = "example_world scenario_a_browser" and ?b = "''https://espritconnect.com''"
  have n: "now ?w = ''2025-01-01T00:00:00''" by (simp add: example_world_def)
  have "driver_get ?w (job_url_of ?b 795) = Some (''https://espritconnect.com/jobs/795'', located_page)"
    by (simp add: job_urls example_world_def scenario_a_browser_def)
  from valid_located [OF this not_redirected_urls(1)]
  show "valid_page ?w ?b 795 (located_job\<lparr>job_id := 795, url := ''https://espritconnect.com/jobs/795'',
                  scraped_at := ''2025-01-01T00:00:00''\<rparr>)"
    by (simp only: job_urls n)
  have "driver_get ?w (job_url_of ?b 796) = Some (''https://espritconnect.com/jobs/796'', located_page)"
    by (simp add: job_urls example_world_def scenario_a_browser_def)
  from valid_located [OF this not_redirected_urls(2)]
  show "valid_page ?w ?b 796 (located_job\<lparr>job_id := 796, url := ''https://espritconnect.com/jobs/796'',
                  scraped_at := ''2025-01-01T00:00:00''\<rparr>)"
    by (simp only: job_urls n)
  have "driver_get ?w (job_url_of ?b 797) = Some (''https://espritconnect.com/jobs/797'', located_page)"
    by (simp add: job_urls example_world_def scenario_a_browser_def)
  from valid_located [OF this not_redirected_urls(3)]
  show "valid_page ?w ?b 797 (located_job\<lparr>job_id := 797, url := ''https://espritconnect.com/jobs/797'',
                  scraped_at := ''2025-01-01T00:00:00''\<rparr>)"
    by (simp only: job_urls n)
  show "driver_get ?w (job_url_of ?b 798) = Some (''https://espritconnect.com'' @ ''/feed'', page_of [])"
    by (simp add: job_urls example_world_def scenario_a_browser_def)
qed

lemma example_world_ok:
  "login_ok (example_world b)" "state_write_ok (example_world b)"
  "save_results_ok (example_world b)" "generate_feeds_ok (example_world b)"
  by (simp_all add: example_world_def)

lemma no_files_fields:
  "state_file no_files = NoFile" "load_existing_job_ids no_files = {||}"
  by (simp_all add: no_files_def load_existing_job_ids_def)

lemma fresh_start_run:
  assumes ok: "login_ok w" "state_write_ok w" "save_results_ok w" "generate_feeds_ok w"
    and quota: "3 \<le> max_jobs"
    and nofile: "state_file d = NoFile"
    and fresh: "795 |\<notin>| load_existing_job_ids d" "796 |\<notin>| load_existing_job_ids d"
               "797 |\<notin>| load_existing_job_ids d"
    and pages: "valid_page w ''https://espritconnect.com'' 795 j1"
               "valid_page w ''https://espritconnect.com'' 796 j2"
               "valid_page w ''https://espritconnect.com'' 797 j3"
               "driver_get w (job_url_of ''https://espritconnect.com'' 798)
                  = Some (''https://espritconnect.com'' @ ''/feed'', sp)"
  shows "fst (scrape_jobs w max_jobs (scraper_init d)) = Inr [j1, j2, j3] \<and>
         state_file (files (snd (scrape_jobs w max_jobs (scraper_init d))))
           = StateFile (Some 797) (Some 1)"
proof -
  let ?s = "scraper_init d"
  have c: "current_job_id ?s = 795" using nofile by (rule scraper_init_fresh)
  have "fst (scrape_jobs w max_jobs ?s) = Inr [j1, j2, j3] \<and>
        state_file (files (snd (scrape_jobs w max_jobs ?s)))
          = StateFile (Some (current_job_id ?s + 2)) (Some 1)"
    using ok quota nofile fresh pages(1-3) missing_feed [OF pages(4)]
    by (intro three_then_missing) (simp_all add: scraper_init_fields c)
  then show ?thesis by (simp add: c)
qed

text \<open>
  C2, as the code has it. With no cursor file, no record of 795 to 797 in earlier output, a
  quota of at least 3, valid pages at 795, 796 and 797 and a redirect to \<open>/feed\<close> at 798,
  and with login and the writes succeeding: the output is exactly the three records of 795
  to 797, and the cursor is persisted with \<open>last_job_id = 797\<close>, the current ID minus one.
\<close>

theorem scenario_a:
  assumes "login_ok w" "state_write_ok w" "save_results_ok w" "generate_feeds_ok w"
    and "3 \<le> max_jobs"
    and "state_file d = NoFile"
    and "795 |\<notin>| load_existing_job_ids d" "796 |\<notin>| load_existing_job_ids d"
        "797 |\<notin>| load_existing_job_ids d"
    and "valid_page w ''https://espritconnect.com'' 795 j1"
        "valid_page w ''https://espritconnect.com'' 796 j2"
        "valid_page w ''https://espritconnect.com'' 797 j3"
        "driver_get w (job_url_of ''https://espritconnect.com'' 798)
           = Some (''https://espritconnect.com'' @ ''/feed'', sp)"
  shows "fst (scrape_jobs w max_jobs (scraper_init d)) = Inr [j1, j2, j3] \<and>
         map job_id [j1, j2, j3] = [795, 796, 797] \<and>
         sf_last_job_id (state_file (files (snd (scrape_jobs w max_jobs (scraper_init d)))))
           = Some 797"
proof -
  have "map job_id [j1, j2, j3] = [795, 796, 797]"
    using assms(10-12) by (simp add: valid_page_id)
  then show ?thesis
    using fresh_start_run [OF assms] by simp
qed

theorem scenario_a_witness:
  "fst (scrape_jobs (example_world scenario_a_browser) 500 (scraper_init no_files))
     = Inr [located_job\<lparr>job_id := 795, url := ''https://espritconnect.com/jobs/795'',
                         scraped_at := ''2025-01-01T00:00:00''\<rparr>,
            located_job\<lparr>job_id := 796, url := ''https://espritconnect.com/jobs/796'',
                         scraped_at := ''2025-01-01T00:00:00''\<rparr>,
            located_job\<lparr>job_id := 797, url := ''https://espritconnect.com/jobs/797'',
                         scraped_at := ''2025-01-01T00:00:00''\<rparr>] \<and>
   sf_last_job_id (state_file (files (snd
     (scrape_jobs (example_world scenario_a_browser) 500 (scraper_init no_files))))) = Some 797"
  using scenario_a [OF example_world_ok _ no_files_fields(1) _ _ _ scenario_a_pages,
                    where max_jobs = 500]
  by (simp add: no_files_fields)

text \<open>
  In scenario A the cursor is not persisted with \<open>last_job_id = 798\<close>: the walk stops with
  the current ID at 798 and persists the current ID minus one.
\<close>

theorem scenario_a_cursor_counterexample:
  "sf_last_job_id (state_file (files (snd
     (scrape_jobs (example_world scenario_a_browser) 500 (scraper_init no_files))))) = Some 797 \<and>
   sf_last_job_id (state_file (files (snd
     (scrape_jobs (example_world scenario_a_browser) 500 (scraper_init no_files))))) \<noteq> Some 798"
  using fresh_start_run [OF example_world_ok _ no_files_fields(1) _ _ _ scenario_a_pages,
                         where max_jobs = 500]
  by (simp add: no_files_fields)

subsection \<open>Failsafe stop\<close>

lemma construct_bare:
  "construct_job w base (page_of []) jid =
     Some (placeholder_job\<lparr>job_id := jid, url := job_url_of base jid, scraped_at := now w\<rparr>)"
  by (simp add: construct_job_def Let_def page_of_def
        title_selectors_def company_selectors_def location_selectors_def
        description_selectors_def requirements_selectors_def date_selectors_def
        image_selectors_def company_logo_selectors_def employment_type_selectors_def
        industry_selectors_def actual_location_selectors_def strip_def
        isspace_def find_closing_date_def find_added_by_def truthy_def
        post_init_def placeholder_job_def)

lemma bare_is_empty:
  "is_empty_job (placeholder_job\<lparr>job_id := jid, url := u, scraped_at := t\<rparr>)"
  by (simp add: is_empty_job_def empty_indicators_def placeholder_job_def strip_def isspace_def
        lower_def lower_char_def char_of_eq_iff)

lemma empty_bare:
  "driver_get w (job_url_of base jid) = Some (final_url, page_of []) \<Longrightarrow>
   \<not> is_redirected_to_home base final_url \<Longrightarrow> empty_page w base jid"
  by (simp add: empty_page_def construct_bare bare_is_empty)

lemma failsafe_after_one:
  assumes ok: "login_ok w" "state_write_ok w" "save_results_ok w" "generate_feeds_ok w"
    and quota: "2 \<le> max_jobs"
    and start: "jobs_scraped s = []" "current_job_id s |\<notin>| existing_job_ids s"
    and pages: "valid_page w (base_url s) (current_job_id s) j1"
               "empty_page w (base_url s) (current_job_id s + 1)"
  shows "fst (scrape_jobs w max_jobs s) = Inr [j1] \<and>
         sf_last_job_id (state_file (files (snd (scrape_jobs w max_jobs s))))
           = Some (current_job_id s)"
proof -
  let ?c = "current_job_id s" and ?b = "base_url s"
  define s1 where "s1 = s\<lparr>current_job_id := ?c + 1, jobs_scraped := jobs_scraped s @ [j1],
      existing_job_ids := finsert ?c (existing_job_ids s),
      visited := visited s @ [job_url_of ?b ?c]\<rparr>"
  have f1: "current_job_id s1 = ?c + 1" "base_url s1 = ?b" "jobs_scraped s1 = [j1]"
    using start by (simp_all add: s1_def)
  have l1: "scrape_loop w max_jobs 0 s = scrape_loop w max_jobs 1 s1"
    unfolding s1_def using quota pages(1) start(2)
    by (intro loop_accept [where n = 0, simplified]) simp_all
  let ?t = "save_last_job_id w (current_job_id s1)
              (s1\<lparr>visited := visited s1 @ [job_url_of (base_url s1) (current_job_id s1)]\<rparr>)"
  have l2: "scrape_loop w max_jobs 1 s1 = save_progress w ?t"
    using quota pages(2) f1 by (intro loop_empty) simp_all
  have ft: "current_job_id ?t = ?c + 1" "jobs_scraped ?t = [j1]"
    using f1 by (simp_all add: save_last_job_id_frame)
  have "fst (save_progress w ?t) = Inr ()"
    using ok ft by (simp add: save_progress_def save_results_def)
  then have r: "scrape_loop w max_jobs 0 s = (Inr (), snd (save_progress w ?t))"
    using l1 l2 by (simp add: prod_eq_iff)
  have f4: "current_job_id (snd (save_progress w ?t)) = ?c + 1"
           "jobs_scraped (snd (save_progress w ?t)) = [j1]"
    using ft by (simp_all add: save_progress_frame)
  show ?thesis
    using ok f4
    by (simp add: scrape_jobs_def Let_def r save_last_job_id_frame save_last_job_id_written)
qed

lemma failsafe_pages:
  "valid_page (example_world failsafe_browser) ''https://espritconnect.com'' 795
     (located_job\<lparr>job_id := 795, url := ''https://espritconnect.com/jobs/795'',
                  scraped_at := ''2025-01-01T00:00:00''\<rparr>)"
  "empty_page (example_world failsafe_browser) ''https://espritconnect.com'' 796"
proof -
  let ?w = "example_world failsafe_browser" and ?b = "''https://espritconnect.com''"
  have n: "now ?w = ''2025-01-01T00:00:00''" by (simp add: example_world_def)
  have "driver_get ?w (job_url_of ?b 795) = Some (''https://espritconnect.com/jobs/795'', located_page)"
    by (simp add: job_urls example_world_def failsafe_browser_def)
  from valid_located [OF this not_redirected_urls(1)]
  show "valid_page ?w ?b 795 (located_job\<lparr>job_id := 795, url := ''https://espritconnect.com/jobs/795'',
                  scraped_at := ''2025-01-01T00:00:00''\<rparr>)"
    by (simp only: job_urls n)
  have "driver_get ?w (job_url_of ?b 796) = Some (''https://espritconnect.com/jobs/796'', page_of [])"
    by (simp add: job_urls example_world_def failsafe_browser_def)
  from empty_bare [OF this not_redirected_urls(2)]
  show "empty_page ?w ?b 796" .
qed

text \<open>
  C1, at a run that starts at 795 with a valid page there and meets the empty record at 796:
  \<open>extract_job_data\<close> saves \<open>last_job_id = 796\<close>, and the save after the loop, made because
  the current ID is past the start, replaces it by 795. The record of 795 is the whole output.
\<close>

theorem failsafe_cursor_overwritten:
  "fst (extract_job_data (example_world failsafe_browser) 796
          ((scraper_init no_files)\<lparr>current_job_id := 796\<rparr>)) = EMPTY_JOB_STOP \<and>
   sf_last_job_id (state_file (files (snd (extract_job_data (example_world failsafe_browser) 796
          ((scraper_init no_files)\<lparr>current_job_id := 796\<rparr>))))) = Some 796 \<and>
   fst (scrape_jobs (example_world failsafe_browser) 500 (scraper_init no_files))
     = Inr [located_job\<lparr>job_id := 795, url := ''https://espritconnect.com/jobs/795'',
                         scraped_at := ''2025-01-01T00:00:00''\<rparr>] \<and>
   sf_last_job_id (state_file (files (snd
     (scrape_jobs (example_world failsafe_browser) 500 (scraper_init no_files))))) = Some 795"
proof -
  let ?w = "example_world failsafe_browser"
  let ?s = "(scraper_init no_files)\<lparr>current_job_id := 796\<rparr>"
  have b: "base_url ?s = ''https://espritconnect.com''"
    by (simp add: scraper_init_fields)
  have "empty_page ?w (base_url ?s) 796"
    using failsafe_pages(2) by (simp only: b)
  from extract_empty [OF this]
  have e: "fst (extract_job_data ?w 796 ?s) = EMPTY_JOB_STOP"
          "sf_last_job_id (state_file (files (snd (extract_job_data ?w 796 ?s)))) = Some 796"
    by (simp_all add: save_last_job_id_written example_world_ok)
  have c: "current_job_id (scraper_init no_files) = 795"
    using no_files_fields(1) by (rule scraper_init_fresh)
  have "fst (scrape_jobs ?w 500 (scraper_init no_files))
          = Inr [located_job\<lparr>job_id := 795, url := ''https://espritconnect.com/jobs/795'',
                         scraped_at := ''2025-01-01T00:00:00''\<rparr>] \<and>
        sf_last_job_id (state_file (files (snd (scrape_jobs ?w 500 (scraper_init no_files)))))
          = Some (current_job_id (scraper_init no_files))"
    using failsafe_pages
    by (intro failsafe_after_one example_world_ok)
       (simp_all add: scraper_init_fields c no_files_fields)
  with e show ?thesis by (simp add: c)
qed

subsection \<open>A fetch that raises\<close>

lemma raising_pages:
  "fetch_raises (example_world raising_browser) ''https://espritconnect.com'' 795"
  "valid_page (example_world raising_browser) ''https://espritconnect.com'' 796
     (located_job\<lparr>job_id := 796, url := ''https://espritconnect.com/jobs/796'',
                  scraped_at := ''2025-01-01T00:00:00''\<rparr>)"
proof -
  let ?w = "example_world raising_browser" and ?b = "''https://espritconnect.com''"
  have n: "now ?w = ''2025-01-01T00:00:00''" by (simp add: example_world_def)
  show "fetch_raises ?w ?b 795"
    by (simp add: fetch_raises_def job_urls example_world_def raising_browser_def)
  have "driver_get ?w (job_url_of ?b 796) = Some (''https://espritconnect.com/jobs/796'', located_page)"
    by (simp add: job_urls example_world_def raising_browser_def)
  from valid_located [OF this not_redirected_urls(2)]
  show "valid_page ?w ?b 796 (located_job\<lparr>job_id := 796, url := ''https://espritconnect.com/jobs/796'',
                  scraped_at := ''2025-01-01T00:00:00''\<rparr>)"
    by (simp only: job_urls n)
qed

lemma raise_ends_loop:
  assumes "n < max_jobs" "fetch_raises w (base_url s) (current_job_id s)"
  shows "current_job_id (snd (scrape_loop w max_jobs n s)) = current_job_id s"
    "jobs_scraped (snd (scrape_loop w max_jobs n s)) = jobs_scraped s"
    "visited (snd (scrape_loop w max_jobs n s))
       = visited s @ [job_url_of (base_url s) (current_job_id s)]"
  by (simp_all add: loop_raises [OF assms] save_progress_frame)

lemma raise_at_start:
  assumes "login_ok w" "0 < max_jobs" "fetch_raises w (base_url s) (current_job_id s)"
    "jobs_scraped s = []"
  shows "scrape_jobs w max_jobs s
           = (Inr [], s\<lparr>visited := visited s @ [job_url_of (base_url s) (current_job_id s)]\<rparr>)"
proof -
  let ?t = "s\<lparr>visited := visited s @ [job_url_of (base_url s) (current_job_id s)]\<rparr>"
  have "scrape_loop w max_jobs 0 s = save_progress w ?t"
    using assms(2,3) by (rule loop_raises)
  also have "\<dots> = (Inr (), ?t)"
    using assms(4) by (simp add: save_progress_def)
  finally show ?thesis
    using assms(1,4) by (simp add: scrape_jobs_def Let_def)
qed

text \<open>
  C4, as the code has it. When the fetch of one ID raises, the exception is caught in
  \<open>extract_job_data\<close>, which returns \<open>None\<close> as it does for a missing page; the loop
  then ends there: no record is added, the current ID stays, and no further page is asked for.
\<close>

theorem fetch_error_ends_walk:
  assumes "n < max_jobs" "fetch_raises w (base_url s) (current_job_id s)"
  shows "fst (extract_job_data w (current_job_id s) s) = NoJob \<and>
         scrape_loop w max_jobs n s =
           save_progress w (s\<lparr>visited := visited s @ [job_url_of (base_url s) (current_job_id s)]\<rparr>) \<and>
         current_job_id (snd (scrape_loop w max_jobs n s)) = current_job_id s \<and>
         jobs_scraped (snd (scrape_loop w max_jobs n s)) = jobs_scraped s \<and>
         visited (snd (scrape_loop w max_jobs n s))
           = visited s @ [job_url_of (base_url s) (current_job_id s)]"
  using extract_raises [OF assms(2)] loop_raises [OF assms] raise_ends_loop [OF assms]
  by simp

theorem fetch_error_ends_walk_witness:
  "fst (extract_job_data (example_world raising_browser) 795 (scraper_init no_files)) = NoJob \<and>
   current_job_id (snd (scrape_loop (example_world raising_browser) 500 0 (scraper_init no_files)))
     = 795 \<and>
   jobs_scraped (snd (scrape_loop (example_world raising_browser) 500 0 (scraper_init no_files)))
     = [] \<and>
   visited (snd (scrape_loop (example_world raising_browser) 500 0 (scraper_init no_files)))
     = [''https://espritconnect.com/jobs/795'']"
proof -
  let ?s = "scraper_init no_files"
  have c: "current_job_id ?s = 795"
    using no_files_fields(1) by (rule scraper_init_fresh)
  have "fetch_raises (example_world raising_browser) (base_url ?s) (current_job_id ?s)"
    using raising_pages(1) by (simp add: scraper_init_fields c)
  moreover have "(0::int) < 500" by simp
  ultimately have t: "fst (extract_job_data (example_world raising_browser) (current_job_id ?s) ?s) = NoJob"
    "current_job_id (snd (scrape_loop (example_world raising_browser) 500 0 ?s)) = current_job_id ?s \<and>
     jobs_scraped (snd (scrape_loop (example_world raising_browser) 500 0 ?s)) = jobs_scraped ?s \<and>
     visited (snd (scrape_loop (example_world raising_browser) 500 0 ?s))
       = visited ?s @ [job_url_of (base_url ?s) (current_job_id ?s)]"
    using fetch_error_ends_walk [of 0 500 "example_world raising_browser" ?s] by blast+
  then show ?thesis by (simp add: scraper_init_fields c job_urls)
qed

text \<open>
  The walk does not continue at the next ID after a fetch that raises: with the browser
  raising at 795 and a valid page at 796, the run returns no record and has asked for the
  page of 795 only.
\<close>

theorem fetch_error_counterexample:
  "fetch_raises (example_world raising_browser) ''https://espritconnect.com'' 795 \<and>
   valid_page (example_world raising_browser) ''https://espritconnect.com'' 796
     (located_job\<lparr>job_id := 796, url := ''https://espritconnect.com/jobs/796'',
                  scraped_at := ''2025-01-01T00:00:00''\<rparr>) \<and>
   fst (scrape_jobs (example_world raising_browser) 500 (scraper_init no_files)) = Inr [] \<and>
   visited (snd (scrape_jobs (example_world raising_browser) 500 (scraper_init no_files)))
     = [''https://espritconnect.com/jobs/795''] \<and>
   current_job_id (snd (scrape_jobs (example_world raising_browser) 500 (scraper_init no_files)))
     = 795"
proof -
  let ?s = "scraper_init no_files"
  have c: "current_job_id ?s = 795"
    using no_files_fields(1) by (rule scraper_init_fresh)
  have "fetch_raises (example_world raising_browser) (base_url ?s) (current_job_id ?s)"
    using raising_pages(1) by (simp add: scraper_init_fields c)
  from raise_at_start [OF example_world_ok(1) _ this, of 500]
  have "scrape_jobs (example_world raising_browser) 500 ?s
          = (Inr [], ?s\<lparr>visited := [''https://espritconnect.com/jobs/795'']\<rparr>)"
    by (simp add: scraper_init_fields c job_urls)
  then show ?thesis
    using raising_pages by (simp add: c)
qed

subsection \<open>Duplicate suppression\<close>



lemma accept_job_recorded:
  "output_recorded s \<Longrightarrow> output_recorded (advance (snd (accept_job job (n, s))))"
  by (auto simp: output_recorded_def accept_job_def advance_def)








text \<open>The walk keeps every record of its output in the duplicate set.\<close>

lemma scraper_init_recorded: "output_recorded (scraper_init d)"
  by (simp add: output_recorded_def scraper_init_fields)

lemma scrape_loop_recorded:
  "output_recorded s \<Longrightarrow> output_recorded (snd (scrape_loop w max_jobs n s))"
proof (induction w max_jobs n s rule: scrape_loop.induct)
  case (1 w max_jobs n s)
  show ?case
  proof (cases "n < max_jobs")
    case False
    then show ?thesis using "1.prems" by (simp add: scrape_loop_done)
  next
    case True
    obtain r s1 where ex: "extract_job_data w (current_job_id s) s = (r, s1)"
      by (cases "extract_job_data w (current_job_id s) s")
    have keep: "jobs_scraped s1 = jobs_scraped s" "existing_job_ids s1 = existing_job_ids s"
      using ex extract_job_data_keeps [OF ex]
      by (cases r; auto dest: extract_job_data_NoJob extract_job_data_EMPTY
            extract_job_data_Job_state simp: save_last_job_id_frame)+
    then have rec1: "output_recorded s1"
      using "1.prems" by (simp add: output_recorded_def)
    show ?thesis
    proof (cases r)
      case NoJob
      then show ?thesis
        using True ex rec1
        by (simp add: scrape_loop_NoJob output_recorded_def save_progress_frame)
    next
      case EMPTY_JOB_STOP
      then show ?thesis
        using True ex rec1
        by (simp add: scrape_loop_EMPTY output_recorded_def save_progress_frame)
    next
      case (Job job)
      with ex have ex': "extract_job_data w (current_job_id s) s = (Job job, s1)" by simp
      show ?thesis
        using "1.IH" [OF True ex [symmetric] Job] accept_job_recorded [OF rec1] True ex'
        by (simp add: scrape_loop_Job)
    qed
  qed
qed




end
